theory Spec2Isabelle
  imports Main
begin

section \<open>Values and errors\<close>

text \<open>
  A Go \<open>interface{}\<close> value as the handlers store and read it. \<open>Nil\<close> is the nil
  interface; \<open>Other\<close> stands for any value of another dynamic type, named by a tag.
\<close>

datatype any = Nil | Str string | Num int | Flag bool | Other string

text \<open>
  The error values of the repository (package \<open>core/middleware/errors\<close>) together with the
  plain errors of the Go library. \<open>Wrapped p e\<close> is \<open>fmt.Errorf(p + "%w", e)\<close>;
  \<open>ErrForbidden\<close> is the sentinel variable of \<open>auth.go\<close>, which \<open>errors.Is\<close> finds by
  identity.
\<close>

datatype err =
    GenericError string
  | Wrapped string err
  | ErrForbidden
  | BadRequestHttpError string
  | UnauthorizedHttpError string
  | ForbiddenHttpError string
  | NotFoundHttpError string
  | InternalServerHttpError string
  | ServiceUnavailableHttpError string
  | MethodNotAllowedHttpError string

fun Error_msg :: "err \<Rightarrow> string" where
  "Error_msg (GenericError m) = m"
| "Error_msg (Wrapped p e) = p @ Error_msg e"
| "Error_msg ErrForbidden = ''forbidden''"
| "Error_msg (BadRequestHttpError m) = m"
| "Error_msg (UnauthorizedHttpError m) = m"
| "Error_msg (ForbiddenHttpError m) = m"
| "Error_msg (NotFoundHttpError m) = m"
| "Error_msg (InternalServerHttpError m) = m"
| "Error_msg (ServiceUnavailableHttpError m) = m"
| "Error_msg (MethodNotAllowedHttpError m) = m"

text \<open>\<open>StatusCode()\<close>: defined on the seven HTTPError types only.\<close>

fun StatusCode :: "err \<Rightarrow> int option" where
  "StatusCode (BadRequestHttpError m) = Some 400"
| "StatusCode (UnauthorizedHttpError m) = Some 401"
| "StatusCode (ForbiddenHttpError m) = Some 403"
| "StatusCode (NotFoundHttpError m) = Some 404"
| "StatusCode (InternalServerHttpError m) = Some 500"
| "StatusCode (ServiceUnavailableHttpError m) = Some 503"
| "StatusCode (MethodNotAllowedHttpError m) = Some 405"
| "StatusCode e = None"

text \<open>
  \<open>errors.As(err, &httpErr)\<close>: the first error of the \<open>Unwrap\<close> chain that has the
  HTTPError method set, given by what the code reads of it, \<open>StatusCode()\<close> and
  \<open>Error()\<close>; \<open>errors.Is(err, ErrForbidden)\<close>: whether the chain reaches the sentinel.
\<close>

fun errors_As_HTTPError :: "err \<Rightarrow> (int \<times> string) option" where
  "errors_As_HTTPError (Wrapped p e) = errors_As_HTTPError e"
| "errors_As_HTTPError e =
     (case StatusCode e of None \<Rightarrow> None | Some code \<Rightarrow> Some (code, Error_msg e))"

fun errors_Is_ErrForbidden :: "err \<Rightarrow> bool" where
  "errors_Is_ErrForbidden (Wrapped p e) = errors_Is_ErrForbidden e"
| "errors_Is_ErrForbidden ErrForbidden = True"
| "errors_Is_ErrForbidden e = False"

definition NewInternalServerHttpError :: "err \<Rightarrow> err" where
  "NewInternalServerHttpError e = InternalServerHttpError (Error_msg e)"

definition NewNotFoundHttpError :: "err \<Rightarrow> err" where
  "NewNotFoundHttpError e = NotFoundHttpError (Error_msg e)"

definition NewMethodNotAllowedHttpError :: "err \<Rightarrow> err" where
  "NewMethodNotAllowedHttpError e = MethodNotAllowedHttpError (Error_msg e)"

definition NewBadRequestHttpError :: "err \<Rightarrow> err" where
  "NewBadRequestHttpError e = BadRequestHttpError (Error_msg e)"

definition NewUnauthorizedHttpError :: "err \<Rightarrow> err" where
  "NewUnauthorizedHttpError e = UnauthorizedHttpError (Error_msg e)"

definition NewForbiddenHttpError :: "err \<Rightarrow> err" where
  "NewForbiddenHttpError e = ForbiddenHttpError (Error_msg e)"


section \<open>Go library functions the code relies on\<close>

text \<open>
  \<open>strings.Split\<close> and \<open>strings.SplitN(_, _, 2)\<close> for a one-character separator, the only
  way the repository calls them, and \<open>strings.HasPrefix(_, ":")\<close>.
\<close>

fun strings_Split :: "char \<Rightarrow> string \<Rightarrow> string list" where
  "strings_Split sep [] = [[]]"
| "strings_Split sep (x # xs) =
     (if x = sep then [] # strings_Split sep xs
      else (case strings_Split sep xs of
              [] \<Rightarrow> [[x]]
            | w # ws \<Rightarrow> (x # w) # ws))"

definition strings_SplitN2 :: "char \<Rightarrow> string \<Rightarrow> string list" where
  "strings_SplitN2 sep s =
     (if sep \<in> set s then [takeWhile (\<lambda>c. c \<noteq> sep) s, tl (dropWhile (\<lambda>c. c \<noteq> sep) s)]
      else [s])"

definition HasPrefix_colon :: "string \<Rightarrow> bool" where
  "HasPrefix_colon s = (case s of [] \<Rightarrow> False | c # cs \<Rightarrow> c = CHR '':'')"

definition strings_ReplaceAll :: "char \<Rightarrow> char \<Rightarrow> string \<Rightarrow> string" where
  "strings_ReplaceAll old new s = map (\<lambda>c. if c = old then new else c) s"

text \<open>\<open>fmt.Sprintf("%d", n)\<close>: the decimal digits of an integer.\<close>

definition digit_char :: "nat \<Rightarrow> char" where
  "digit_char d = ''0123456789'' ! d"

function fmt_nat :: "nat \<Rightarrow> string" where
  "fmt_nat n = (if n < 10 then [digit_char n] else fmt_nat (n div 10) @ [digit_char (n mod 10)])"
  by pat_completeness auto
termination
  by (relation "measure id") auto

definition fmt_d :: "int \<Rightarrow> string" where
  "fmt_d i = (if i < 0 then CHR ''-'' # fmt_nat (nat (- i)) else fmt_nat (nat i))"

text \<open>A parsed JSON value. A number is carried as \<open>int64(x)\<close> gives it, the only reading
  the code makes of one (the \<open>exp\<close> claim).\<close>

datatype json =
    JNull | JBool bool | JNumber int | JString string
  | JArray "json list" | JObject "(string \<times> json) list"

type_synonym MapClaims = "(string \<times> json) list"

text \<open>The canonical error envelope \<open>{"error": {"code": _, "message": _}}\<close>
  (\<open>errors/response.go\<close>).\<close>

datatype ErrorResponse = ErrorResponse (Code: int) (Message: string)

definition NewErrorResponse :: "int \<Rightarrow> string \<Rightarrow> ErrorResponse" where
  "NewErrorResponse statusCode message = ErrorResponse statusCode message"

definition NewUnauthorizedResponse :: "string \<Rightarrow> ErrorResponse" where
  "NewUnauthorizedResponse message =
     NewErrorResponse 401 (if message = [] then ''Unauthorized'' else message)"

definition NewForbiddenResponse :: "string \<Rightarrow> ErrorResponse" where
  "NewForbiddenResponse message =
     NewErrorResponse 403 (if message = [] then ''Forbidden'' else message)"

definition NewConflictResponse :: "string \<Rightarrow> ErrorResponse" where
  "NewConflictResponse message =
     NewErrorResponse 409 (if message = [] then ''Conflict'' else message)"

definition NewInternalServerErrorResponse :: "string \<Rightarrow> ErrorResponse" where
  "NewInternalServerErrorResponse message =
     NewErrorResponse 500 (if message = [] then ''Internal Server Error'' else message)"

text \<open>
  The functions of the Go standard library whose code is not part of the repository are
  parameters of the model: base64 decoding, JSON parsing into a \<open>map[string]interface{}\<close>
  (given as the list of its entries, each key once), JSON encoding of the envelope, HMAC-SHA256 (key first), glob matching (\<open>path.Match\<close>, errors read as no
  match, as \<open>isWildcardMatch\<close> does) and the clock. Where such a function fails it returns \<open>Inl\<close> with the text of the library's error.
\<close>

record stdlib =
  base64_DecodeString :: "string \<Rightarrow> string + string"
  json_Unmarshal :: "string \<Rightarrow> string + (string \<times> json) list"
  json_Encode :: "ErrorResponse \<Rightarrow> string"
  hmac_sha256 :: "string \<Rightarrow> string \<Rightarrow> string"
  path_Match :: "string \<Rightarrow> string \<Rightarrow> bool"
  time_Now_Unix :: int
  time_Now_UnixNano :: int
  time_Since_Milliseconds :: int

section \<open>Skip-list matching (\<open>util/path_matcher.go\<close>)\<close>

definition isWildcardMatch :: "stdlib \<Rightarrow> string \<Rightarrow> string \<Rightarrow> bool" where
  "isWildcardMatch L pattern pathStr = path_Match L pattern pathStr"

definition isParamPatternMatch :: "string \<Rightarrow> string \<Rightarrow> bool" where
  "isParamPatternMatch pattern pathStr =
     (let p1 = strings_Split CHR ''/'' pattern; p2 = strings_Split CHR ''/'' pathStr
      in if length p1 \<noteq> length p2 then False
         else list_all (\<lambda>(a, b). HasPrefix_colon a \<or> a = b) (zip p1 p2))"

fun IsSkipPaths :: "stdlib \<Rightarrow> string \<Rightarrow> string list \<Rightarrow> bool" where
  "IsSkipPaths L pathStr [] = False"
| "IsSkipPaths L pathStr (ignorePath # rest) =
     (if pathStr = ignorePath \<or> isWildcardMatch L ignorePath pathStr
         \<or> isParamPatternMatch ignorePath pathStr
      then True else IsSkipPaths L pathStr rest)"

section \<open>Response writers\<close>

text \<open>
  Modelled from the spec: the engine's own \<open>http.ResponseWriter\<close>, which belongs to
  \<open>net/http\<close> and is not among the source files. Its state is what the client receives,
  and its two operations behave as the specification states them: the first
  \<open>WriteHeader\<close> call wins and later calls do not change the status, a \<open>Write\<close> before any
  \<open>WriteHeader\<close> sends status 200, and every \<open>Write\<close> passes its bytes on to the body.
\<close>

record ResponseWriter =
  rw_wroteHeader :: bool
  rw_status :: int
  rw_header :: "string \<rightharpoonup> string"
  rw_body :: "string list"

definition http_WriteHeader :: "int \<Rightarrow> ResponseWriter \<Rightarrow> ResponseWriter" where
  "http_WriteHeader code w =
     (if rw_wroteHeader w then w else w\<lparr>rw_wroteHeader := True, rw_status := code\<rparr>)"

definition http_Write :: "string \<Rightarrow> ResponseWriter \<Rightarrow> ResponseWriter" where
  "http_Write b w =
     (let w1 = (if rw_wroteHeader w then w else http_WriteHeader 200 w)
      in w1\<lparr>rw_body := rw_body w1 @ [b]\<rparr>)"

definition new_ResponseWriter :: ResponseWriter where
  "new_ResponseWriter =
     \<lparr>rw_wroteHeader = False, rw_status = 0, rw_header = Map.empty, rw_body = []\<rparr>"

text \<open>
  The two wrappers of package \<open>std\<close> are objects that handlers and middlewares share by
  pointer, so they live in a store: \<open>Ref a\<close> is the wrapper at address \<open>a\<close>, \<open>BaseW\<close> the
  engine's writer. \<open>RWW inner statusCode written\<close> is a \<open>ResponseWriterWrapper\<close>,
  \<open>ECW inner statusCode err\<close> an \<open>errorCaptureWriter\<close>.
\<close>

datatype wref = BaseW | Ref nat

datatype wobj = RWW wref int bool | ECW wref int "err option"

record wstore =
  objs :: "wobj list"
  resp :: ResponseWriter

text \<open>A wrapper is allocated after the writer it embeds; \<open>older\<close> states it of two
  references. The dispatch below follows the embedded writer only then, which is what
  makes it terminate.\<close>

fun older :: "wref \<Rightarrow> nat \<Rightarrow> bool" where
  "older BaseW a = True"
| "older (Ref b) a = (b < a)"

definition errorCapture_err :: "int \<Rightarrow> string \<Rightarrow> err option \<Rightarrow> err option" where
  "errorCapture_err statusCode b old =
     (if statusCode \<ge> 400 then
        (if statusCode = 400 then Some (NewBadRequestHttpError (GenericError b))
         else if statusCode = 401 then Some (NewUnauthorizedHttpError (GenericError b))
         else if statusCode = 403 then Some (NewForbiddenHttpError (GenericError b))
         else if statusCode = 500 then Some (NewInternalServerHttpError (GenericError b))
         else Some (GenericError (''HTTP error: '' @ fmt_d statusCode @ '' - '' @ b)))
      else old)"

function WriteHeader :: "wref \<Rightarrow> int \<Rightarrow> wstore \<Rightarrow> wstore" where
  "WriteHeader BaseW code s = s\<lparr>resp := http_WriteHeader code (resp s)\<rparr>"
| "WriteHeader (Ref a) code s =
     (if a < length (objs s) then
        (case objs s ! a of
           RWW inner statusCode written \<Rightarrow>
             (if older inner a
              then WriteHeader inner code (s\<lparr>objs := (objs s)[a := RWW inner code True]\<rparr>)
              else s)
         | ECW inner statusCode e \<Rightarrow>
             (if older inner a
              then WriteHeader inner code (s\<lparr>objs := (objs s)[a := ECW inner code e]\<rparr>)
              else s))
      else s)"
  by pat_completeness auto
termination
  by (relation "measure (\<lambda>(r, code, s). case r of BaseW \<Rightarrow> 0 | Ref a \<Rightarrow> Suc a)")
     (auto split: wref.splits)

function Write :: "wref \<Rightarrow> string \<Rightarrow> wstore \<Rightarrow> wstore" where
  "Write BaseW b s = s\<lparr>resp := http_Write b (resp s)\<rparr>"
| "Write (Ref a) b s =
     (if a < length (objs s) then
        (case objs s ! a of
           RWW inner statusCode written \<Rightarrow>
             (if older inner a
              then Write inner b
                     (if \<not> written then s\<lparr>objs := (objs s)[a := RWW inner 200 True]\<rparr> else s)
              else s)
         | ECW inner statusCode e \<Rightarrow>
             (if older inner a
              then (let sc = (if statusCode = 0 then 200 else statusCode)
                    in Write inner b
                         (s\<lparr>objs := (objs s)[a := ECW inner sc (errorCapture_err sc b e)]\<rparr>))
              else s))
      else s)"
  by pat_completeness auto
termination
  by (relation "measure (\<lambda>(r, b, s). case r of BaseW \<Rightarrow> 0 | Ref a \<Rightarrow> Suc a)")
     (auto split: wref.splits)

text \<open>\<open>Header()\<close> is promoted from the embedded writer through every wrapper, so it always
  reaches the engine's header map.\<close>

definition Header_Set :: "string \<Rightarrow> string \<Rightarrow> wstore \<Rightarrow> wstore" where
  "Header_Set key v s = s\<lparr>resp := (resp s)\<lparr>rw_header := (rw_header (resp s))(key \<mapsto> v)\<rparr>\<rparr>"

text \<open>\<open>ResponseWriterWrapper.Status()\<close> of the wrapper at an address.\<close>

definition Status :: "wobj \<Rightarrow> int" where
  "Status w = (case w of RWW inner statusCode written \<Rightarrow> (if \<not> written then 200 else statusCode)
               | ECW inner statusCode e \<Rightarrow> statusCode)"


section \<open>The per-request context of the minimal engine (\<open>std.Context\<close>)\<close>

text \<open>
  The request as the middlewares read it: method, URL path, headers (\<open>Header.Get\<close> of an
  absent header is the empty string) and the value that \<open>context.WithValue\<close> stored under
  \<open>UserContextKey\<close>.
\<close>

record Request =
  Method :: string
  URL_Path :: string
  Header :: "string \<rightharpoonup> string"
  ctx_user :: "any option"

definition Header_Get :: "Request \<Rightarrow> string \<Rightarrow> string" where
  "Header_Get r key = (case Header r key of None \<Rightarrow> [] | Some v \<Rightarrow> v)"

text \<open>The log record (\<open>ApiLog\<close>). The fields that only copy request data or the wall clock
  (client address, timestamp, protocol, user agent, custom fields) are left out.\<close>

record ApiLog =
  log_Method :: string
  log_Path :: string
  log_StatusCode :: int
  log_Latency :: int
  log_Error :: string
  log_RequestId :: string
  log_Authorization :: string

text \<open>
  What a request does to the world outside its context is recorded as a trace: every call
  of an injected collaborator and every log record written, in order.
\<close>

datatype event =
    Ev_GenerateRequestID
  | Ev_CheckRequestID string
  | Ev_SaveRequestID string
  | Ev_LookupUserByJWT MapClaims
  | Ev_LookupUserByBasicAuth string string
  | Ev_logToConsole ApiLog
  | Ev_sendLogToRemote string ApiLog

text \<open>
  The fields of \<open>std.Context\<close> that a handler reaches through the \<open>core.Context\<close>
  interface. \<open>keys\<close> is \<open>None\<close> for Go's nil map. The writer is a reference into the
  store \<open>ws\<close>. The mutex, the path parameters and the query cache play no part in any
  property below and are left out.
\<close>

record ctx_data =
  req :: Request
  writer :: wref
  ws :: wstore
  errs :: "err list"
  keys :: "(string \<rightharpoonup> any) option"
  trace :: "event list"

definition Context_GetHeader :: "string \<Rightarrow> ctx_data \<Rightarrow> string" where
  "Context_GetHeader key c = Header_Get (req c) key"

definition Context_SetHeader :: "string \<Rightarrow> string \<Rightarrow> ctx_data \<Rightarrow> ctx_data" where
  "Context_SetHeader key v c = c\<lparr>ws := Header_Set key v (ws c)\<rparr>"

definition Context_SetStatus :: "int \<Rightarrow> ctx_data \<Rightarrow> ctx_data" where
  "Context_SetStatus code c = c\<lparr>ws := WriteHeader (writer c) code (ws c)\<rparr>"

text \<open>\<open>JSON\<close>: the encoder cannot fail on the envelope and the writers of the model
  return no error, so the \<open>http.Error\<close> branch is never taken.\<close>

definition Context_JSON :: "stdlib \<Rightarrow> int \<Rightarrow> ErrorResponse \<Rightarrow> ctx_data \<Rightarrow> ctx_data" where
  "Context_JSON L code obj c =
     (let c1 = Context_SetHeader ''Content-Type'' ''application/json'' c;
          c2 = Context_SetStatus code c1
      in c2\<lparr>ws := Write (writer c2) (json_Encode L obj) (ws c2)\<rparr>)"

definition Context_String :: "int \<Rightarrow> string \<Rightarrow> ctx_data \<Rightarrow> ctx_data" where
  "Context_String code text c =
     (let c1 = Context_SetHeader ''Content-Type'' ''text/plain'' c;
          c2 = Context_SetStatus code c1
      in c2\<lparr>ws := Write (writer c2) text (ws c2)\<rparr>)"

definition Context_Error :: "err \<Rightarrow> ctx_data \<Rightarrow> ctx_data" where
  "Context_Error e c = c\<lparr>errs := errs c @ [e]\<rparr>"

definition Context_Errors :: "ctx_data \<Rightarrow> err list" where
  "Context_Errors c = errs c"

definition Context_Get :: "ctx_data \<Rightarrow> string \<Rightarrow> any \<times> bool" where
  "Context_Get c key =
     (case keys c of
        None \<Rightarrow> (Nil, False)
      | Some m \<Rightarrow> (case m key of None \<Rightarrow> (Nil, False) | Some v \<Rightarrow> (v, True)))"

definition Context_Set :: "string \<Rightarrow> any \<Rightarrow> ctx_data \<Rightarrow> ctx_data" where
  "Context_Set key v c =
     (let m = (case keys c of None \<Rightarrow> Map.empty | Some m \<Rightarrow> m)
      in c\<lparr>keys := Some (m(key \<mapsto> v))\<rparr>)"

section \<open>Handlers and the handler chain\<close>

text \<open>
  A \<open>core.HandlerFunc\<close> is Go code that runs against the context. It is represented by the
  tree of what it does: \<open>Ret\<close> returns, \<open>Act f p\<close> changes the context data and goes on
  as \<open>p\<close>, \<open>Branch f\<close> reads the context data to choose how to go on, \<open>CallNext p\<close>
  calls \<open>c.Next()\<close> and goes on as \<open>p\<close> when it returns, \<open>Panic v\<close> panics, and
  \<open>Recover p h\<close> is \<open>p\<close> run under
  \<open>defer func() { if r := recover(); r != nil { h r } }()\<close>.
  The cursor fields of the context are private to package \<open>std\<close>, so no handler touches
  them other than through \<open>CallNext\<close>.
\<close>

datatype pval = PString string | PError err | POther string

datatype hprog =
    Ret
  | Act "ctx_data \<Rightarrow> ctx_data" hprog
  | Branch "ctx_data \<Rightarrow> hprog"
  | CallNext hprog
  | Panic pval
  | Recover hprog "pval \<Rightarrow> hprog"

text \<open>\<open>ran\<close> is not a field of the source: it lists the chain positions whose handler was
  entered, in order, so that properties about which handlers execute can be stated.\<close>

record Context =
  cd :: ctx_data
  handlers :: "hprog list"
  index :: int
  handlerCount :: int
  ran :: "nat list"

datatype 'a result = Returned 'a | Panicking pval 'a | OutOfFuel

text \<open>Running a handler, given what \<open>c.Next()\<close> does. A panic unwinds to the nearest
  \<open>Recover\<close>; the changes made to the context before it stay.\<close>

primrec run_h :: "hprog \<Rightarrow> (Context \<Rightarrow> Context result) \<Rightarrow> Context \<Rightarrow> Context result" where
  "run_h Ret nxt c = Returned c"
| "run_h (Act f p) nxt c = run_h p nxt (c\<lparr>cd := f (cd c)\<rparr>)"
| "run_h (Branch f) nxt c = run_h (f (cd c)) nxt c"
| "run_h (CallNext p) nxt c =
     (case nxt c of Returned c' \<Rightarrow> run_h p nxt c' | Panicking v c' \<Rightarrow> Panicking v c'
      | OutOfFuel \<Rightarrow> OutOfFuel)"
| "run_h (Panic v) nxt c = Panicking v c"
| "run_h (Recover p h) nxt c =
     (case run_h p nxt c of Returned c' \<Rightarrow> Returned c' | Panicking v c' \<Rightarrow> run_h (h v) nxt c'
      | OutOfFuel \<Rightarrow> OutOfFuel)"

text \<open>
  \<open>Context.Next\<close>:
  \<^verbatim>\<open>c.index++; for c.index < c.handlerCount { c.handlers[c.index](c); c.index++ }\<close>
  The handler called in the loop body may call \<open>Next\<close> itself, so the recursion is
  nested; it is bounded by a fuel argument, which every entry of a handler consumes.
  Reading \<open>c.handlers\<close> out of range is a run-time panic in Go.
\<close>

definition index_incr :: "Context \<Rightarrow> Context" where
  "index_incr c = c\<lparr>index := index c + 1\<rparr>"

primrec Next_loop :: "nat \<Rightarrow> Context \<Rightarrow> Context result" where
  "Next_loop 0 c = (if index c < handlerCount c then OutOfFuel else Returned c)"
| "Next_loop (Suc n) c =
     (if index c < handlerCount c then
        (if 0 \<le> index c \<and> nat (index c) < length (handlers c) then
           (case run_h (handlers c ! nat (index c)) (\<lambda>c'. Next_loop n (index_incr c'))
                   (c\<lparr>ran := ran c @ [nat (index c)]\<rparr>) of
              Returned c' \<Rightarrow> Next_loop n (index_incr c')
            | Panicking v c' \<Rightarrow> Panicking v c'
            | OutOfFuel \<Rightarrow> OutOfFuel)
         else Panicking (PError (GenericError ''index out of range'')) c)
      else Returned c)"

definition Context_Next :: "nat \<Rightarrow> Context \<Rightarrow> Context result" where
  "Context_Next fuel c = Next_loop fuel (index_incr c)"


text \<open>The context that \<open>handleHTTP\<close> builds for a request: the cursor before the first
  handler, an empty (but allocated) key/value store, the engine's writer. \<open>tr\<close> is the
  trace of the world so far.\<close>

definition new_Context :: "Request \<Rightarrow> event list \<Rightarrow> hprog list \<Rightarrow> Context" where
  "new_Context r tr allHandlers =
     \<lparr>cd = \<lparr>req = r, writer = BaseW,
             ws = \<lparr>objs = [], resp = new_ResponseWriter\<rparr>,
             errs = [], keys = Some Map.empty, trace = tr\<rparr>,
      handlers = allHandlers, index = - 1,
      handlerCount = int (length allHandlers), ran = []\<rparr>"


section \<open>The server of the minimal engine: \<open>handleHTTP\<close>\<close>

record Server =
  routes :: "string \<Rightarrow> string \<rightharpoonup> hprog list"
  middleware :: "hprog list"
  noRouteHandlers :: "hprog list"
  noMethodHandlers :: "hprog list"

text \<open>\<open>http.Error\<close> and \<open>http.NotFound\<close> of \<open>net/http\<close>, on the engine's writer.\<close>

definition http_Error :: "string \<Rightarrow> int \<Rightarrow> ResponseWriter \<Rightarrow> ResponseWriter" where
  "http_Error msg code w =
     http_Write (msg @ [CHR 0x0A])
       (http_WriteHeader code
          (w\<lparr>rw_header := (rw_header w)(''Content-Type'' \<mapsto> ''text/plain; charset=utf-8'',
                                         ''X-Content-Type-Options'' \<mapsto> ''nosniff'')\<rparr>))"

definition no_Context :: "Request \<Rightarrow> event list \<Rightarrow> ResponseWriter \<Rightarrow> Context" where
  "no_Context r tr w = (new_Context r tr [])\<lparr>cd := (cd (new_Context r tr []))
       \<lparr>ws := \<lparr>objs = [], resp = w\<rparr>\<rparr>\<rparr>"

text \<open>
  \<open>handleHTTP(method, path)\<close> applied to a request \<open>r\<close> on a fresh engine writer. Where
  the source answers with \<open>http.Error\<close> or \<open>http.NotFound\<close> it builds no context; the
  value returned there is a context without handlers that only carries the response.
\<close>

definition handleHTTP ::
  "Server \<Rightarrow> string \<Rightarrow> string \<Rightarrow> nat \<Rightarrow> event list \<Rightarrow> Request \<Rightarrow> Context result" where
  "handleHTTP s method path fuel tr r =
     (if Method r \<noteq> method then
        (if length (noMethodHandlers s) > 0 then
           (let allHandlers = middleware s @ noMethodHandlers s;
                ctx = new_Context r tr allHandlers;
                ctx1 = ctx\<lparr>cd := Context_Error
                          (GenericError (''Method '' @ Method r @ '' not allowed for path '' @ path))
                          (cd ctx)\<rparr>
            in Context_Next fuel ctx1)
         else Returned (no_Context r tr (http_Error ''Method not allowed'' 405 new_ResponseWriter)))
      else
        (case routes s method path of
           None \<Rightarrow>
             (if length (noRouteHandlers s) > 0 then
                (let allHandlers = middleware s @ noRouteHandlers s;
                     ctx = new_Context r tr allHandlers;
                     ctx1 = ctx\<lparr>cd := Context_Error
                               (GenericError (''Route '' @ path @ '' not found'')) (cd ctx)\<rparr>
                 in Context_Next fuel ctx1)
              else Returned (no_Context r tr (http_Error ''404 page not found'' 404 new_ResponseWriter)))
         | Some hs \<Rightarrow>
             (let allHandlers = middleware s @ hs;
                  ctx = new_Context r tr allHandlers
              in Context_Next fuel ctx)))"

text \<open>The chain positions entered during a request.\<close>

fun ran_of :: "Context result \<Rightarrow> nat list" where
  "ran_of (Returned c) = ran c"
| "ran_of (Panicking v c) = ran c"
| "ran_of OutOfFuel = []"

subsection \<open>Invariants of the chain walk\<close>

text \<open>
  Inside the handler at a position the positions entered so far are exactly those up to
  the cursor; at the head of the loop they are those below it. \<open>i\<close> is a lower bound of
  the cursor, which never moves back.
\<close>

definition in_handler :: "hprog list \<Rightarrow> int \<Rightarrow> Context \<Rightarrow> bool" where
  "in_handler hs i c \<longleftrightarrow>
     handlers c = hs \<and> handlerCount c = int (length hs) \<and> i \<le> index c \<and> 0 \<le> i \<and>
     ran c = [0..<nat (min (index c + 1) (int (length hs)))]"

definition at_loop :: "hprog list \<Rightarrow> int \<Rightarrow> Context \<Rightarrow> bool" where
  "at_loop hs i c \<longleftrightarrow>
     handlers c = hs \<and> handlerCount c = int (length hs) \<and> i \<le> index c \<and> 0 \<le> i \<and>
     ran c = [0..<nat (min (index c) (int (length hs)))]"

definition finished :: "hprog list \<Rightarrow> Context \<Rightarrow> bool" where
  "finished hs c \<longleftrightarrow>
     handlers c = hs \<and> handlerCount c = int (length hs) \<and>
     int (length hs) \<le> index c \<and> ran c = [0..<length hs]"

fun res_ok :: "(Context \<Rightarrow> bool) \<Rightarrow> (Context \<Rightarrow> bool) \<Rightarrow> Context result \<Rightarrow> bool" where
  "res_ok P Q (Returned c) = P c"
| "res_ok P Q (Panicking v c) = Q c"
| "res_ok P Q OutOfFuel = False"


section \<open>Logging middleware\<close>

record LoggingConfig =
  RemoteURL :: string
  LoggingToConsole :: bool
  LoggingToRemote :: bool
  Logging_SkipPaths :: "string list"

definition DefaultLoggingConfig :: LoggingConfig where
  "DefaultLoggingConfig =
     \<lparr>RemoteURL = [], LoggingToConsole = True, LoggingToRemote = False, Logging_SkipPaths = []\<rparr>"

definition maskAuthorizationBool :: "string \<Rightarrow> bool \<Rightarrow> string" where
  "maskAuthorizationBool auth maskAuth =
     (if auth = [] then []
      else if \<not> maskAuth then auth
      else (let parts = strings_Split CHR '' '' auth
            in if length parts \<noteq> 2 then ''[MASKED]'' else parts ! 0 @ '' [MASKED]''))"

definition CreateLogEntry :: "Request \<Rightarrow> int \<Rightarrow> int \<Rightarrow> string \<Rightarrow> LoggingConfig \<Rightarrow> ApiLog" where
  "CreateLogEntry r statusCode latency requestID config =
     \<lparr>log_Method = Method r, log_Path = URL_Path r, log_StatusCode = statusCode,
      log_Latency = latency, log_Error = ''none'', log_RequestId = requestID,
      log_Authorization =
        maskAuthorizationBool (Header_Get r ''Authorization'') (\<not> LoggingToConsole config)\<rparr>"

text \<open>\<open>ProcessLog\<close>: the console record is written at once, the remote one is handed to a
  goroutine; both are events of the trace.\<close>

definition ProcessLog :: "ApiLog \<Rightarrow> LoggingConfig \<Rightarrow> ctx_data \<Rightarrow> ctx_data" where
  "ProcessLog logEntry config c =
     (let c1 = (if LoggingToConsole config
                then c\<lparr>trace := trace c @ [Ev_logToConsole logEntry]\<rparr> else c)
      in if LoggingToRemote config \<and> RemoteURL config \<noteq> []
         then c1\<lparr>trace := trace c1 @ [Ev_sendLogToRemote (RemoteURL config) logEntry]\<rparr>
         else c1)"

text \<open>\<open>wrappedWriter.Status()\<close> of the wrapper that sits at an address of the store.\<close>

definition Status_at :: "nat \<Rightarrow> wstore \<Rightarrow> int" where
  "Status_at a s = (if a < length (objs s) then Status (objs s ! a) else 200)"

text \<open>
  \<open>LoggingMiddleware.Middleware\<close> of package \<open>std\<close>, on a \<open>*std.Context\<close> (the branch
  taken for every request the minimal engine serves): set the request id header, put a
  fresh \<open>ResponseWriterWrapper\<close> around the current writer, call \<open>Next()\<close>, read the
  wrapper's status, write the log record and put the original writer back.
\<close>

definition LoggingMiddleware :: "stdlib \<Rightarrow> LoggingConfig option \<Rightarrow> hprog" where
  "LoggingMiddleware L cfg =
     (let config = (case cfg of None \<Rightarrow> DefaultLoggingConfig | Some c \<Rightarrow> c) in
      Branch (\<lambda>c0.
        let hdr = Header_Get (req c0) ''X-Request-ID'';
            requestID = (if hdr = [] then fmt_d (time_Now_UnixNano L) else hdr);
            originalWriter = writer c0;
            a = length (objs (ws c0))
        in Act (Context_SetHeader ''X-Request-ID'' requestID)
          (Act (\<lambda>c. c\<lparr>ws := (ws c)\<lparr>objs := objs (ws c) @ [RWW originalWriter 200 False]\<rparr>,
                      writer := Ref a\<rparr>)
            (CallNext
              (Act (\<lambda>c.
                 let latency = time_Since_Milliseconds L;
                     statusCode = Status_at a (ws c);
                     logEntry = CreateLogEntry (req c) statusCode latency requestID config;
                     logEntry1 = (if statusCode \<ge> 400
                                  then logEntry\<lparr>log_Error := ''HTTP error: '' @ fmt_d statusCode\<rparr>
                                  else logEntry)
                 in (ProcessLog logEntry1 config c)\<lparr>writer := originalWriter\<rparr>)
               Ret)))))"

text \<open>
  The other branch of the same function, for a context that is not a \<open>*std.Context\<close>
  (the same text stands in package \<open>gin\<close>): here the skip list is read, by string
  equality, and the status logged is the constant 200.
\<close>

definition LoggingMiddleware_other_context :: "stdlib \<Rightarrow> LoggingConfig option \<Rightarrow> hprog" where
  "LoggingMiddleware_other_context L cfg =
     (let config = (case cfg of None \<Rightarrow> DefaultLoggingConfig | Some c \<Rightarrow> c) in
      Branch (\<lambda>c0.
        if URL_Path (req c0) \<in> set (Logging_SkipPaths config) then CallNext Ret
        else
          let hdr = Header_Get (req c0) ''X-Request-ID'';
              requestID = (if hdr = [] then fmt_d (time_Now_UnixNano L) else hdr)
          in Act (Context_SetHeader ''X-Request-ID'' requestID)
            (CallNext
              (Act (\<lambda>c.
                 let latency = time_Since_Milliseconds L;
                     logEntry = CreateLogEntry (req c) 200 latency requestID config
                 in ProcessLog logEntry config c)
               Ret))))"

text \<open>What the client received and what was logged, read off the outcome of a request.\<close>

fun data_of :: "Context result \<Rightarrow> ctx_data option" where
  "data_of (Returned c) = Some (cd c)"
| "data_of (Panicking v c) = Some (cd c)"
| "data_of OutOfFuel = None"

definition client_status :: "Context result \<Rightarrow> int option" where
  "client_status r = map_option (\<lambda>d. rw_status (resp (ws d))) (data_of r)"

definition client_body :: "Context result \<Rightarrow> string list option" where
  "client_body r = map_option (\<lambda>d. rw_body (resp (ws d))) (data_of r)"

fun logged_status :: "event \<Rightarrow> int list" where
  "logged_status (Ev_logToConsole l) = [log_StatusCode l]"
| "logged_status (Ev_sendLogToRemote u l) = [log_StatusCode l]"
| "logged_status e = []"

fun logged_path :: "event \<Rightarrow> string list" where
  "logged_path (Ev_logToConsole l) = [log_Path l]"
| "logged_path (Ev_sendLogToRemote u l) = [log_Path l]"
| "logged_path e = []"

definition logged_statuses :: "Context result \<Rightarrow> int list option" where
  "logged_statuses r = map_option (\<lambda>d. concat (map logged_status (trace d))) (data_of r)"

definition logged_paths :: "Context result \<Rightarrow> string list option" where
  "logged_paths r = map_option (\<lambda>d. concat (map logged_path (trace d))) (data_of r)"

section \<open>Error-handler middleware\<close>

record ErrorHandlerConfig =
  DefaultErrorMessage :: string
  DefaultStatusCode :: int

definition DefaultErrorHandlerConfig :: ErrorHandlerConfig where
  "DefaultErrorHandlerConfig =
     \<lparr>DefaultErrorMessage = ''Internal Server Error'', DefaultStatusCode = 500\<rparr>"

text \<open>The type switch of the deferred function on the recovered value. \<open>POther s\<close> is a
  value that is neither a string nor an error, carried by its \<open>%v\<close> rendering \<open>s\<close>.\<close>

fun recovered_error :: "pval \<Rightarrow> err" where
  "recovered_error (PString e) = NewInternalServerHttpError (GenericError e)"
| "recovered_error (PError e) = NewInternalServerHttpError e"
| "recovered_error (POther s) = NewInternalServerHttpError (GenericError (''unknown error: '' @ s))"

definition handleError :: "stdlib \<Rightarrow> err \<Rightarrow> ErrorHandlerConfig \<Rightarrow> ctx_data \<Rightarrow> ctx_data" where
  "handleError L e config c =
     (case errors_As_HTTPError e of
        Some (code, msg) \<Rightarrow> Context_JSON L code (NewErrorResponse code msg) c
      | None \<Rightarrow> Context_JSON L (DefaultStatusCode config)
                  (NewErrorResponse (DefaultStatusCode config) (DefaultErrorMessage config)) c)"

definition install_errorCaptureWriter :: "ctx_data \<Rightarrow> ctx_data" where
  "install_errorCaptureWriter c =
     c\<lparr>ws := (ws c)\<lparr>objs := objs (ws c) @ [ECW (writer c) 200 None]\<rparr>,
       writer := Ref (length (objs (ws c)))\<rparr>"

definition errorWriter_err :: "nat \<Rightarrow> wstore \<Rightarrow> err option" where
  "errorWriter_err a s =
     (if a < length (objs s) then
        (case objs s ! a of ECW inner statusCode e \<Rightarrow> e | RWW inner statusCode written \<Rightarrow> None)
      else None)"

text \<open>
  \<open>ErrorHandlerMiddleware.Middleware\<close> of package \<open>std\<close> on a \<open>*std.Context\<close>: the
  deferred recovery, the \<open>errorCaptureWriter\<close> put around the current writer, \<open>Next()\<close>,
  and the check of the error the writer captured. The writer is not put back.
\<close>

definition ErrorHandlerMiddleware :: "stdlib \<Rightarrow> ErrorHandlerConfig option \<Rightarrow> hprog" where
  "ErrorHandlerMiddleware L cfg =
     (let config = (case cfg of None \<Rightarrow> DefaultErrorHandlerConfig | Some c \<Rightarrow> c) in
      Branch (\<lambda>c0.
        let a = length (objs (ws c0)) in
        Recover
          (Act install_errorCaptureWriter
            (CallNext
              (Branch (\<lambda>c. case errorWriter_err a (ws c) of
                             Some e \<Rightarrow> Act (handleError L e config) Ret
                           | None \<Rightarrow> Ret))))
          (\<lambda>r. Act (handleError L (recovered_error r) config) Ret)))"

text \<open>
  The branch of the same function for a context of another type, which stands with the
  same text in package \<open>std\<close> and in package \<open>gin\<close>: recovery, \<open>Next()\<close>, then the first
  of the accumulated errors.
\<close>

definition ErrorHandlerMiddleware_other_context ::
  "stdlib \<Rightarrow> ErrorHandlerConfig option \<Rightarrow> hprog" where
  "ErrorHandlerMiddleware_other_context L cfg =
     (let config = (case cfg of None \<Rightarrow> DefaultErrorHandlerConfig | Some c \<Rightarrow> c) in
      Recover
        (CallNext
          (Branch (\<lambda>c. case Context_Errors c of
                         [] \<Rightarrow> Ret
                       | e # es \<Rightarrow> Act (handleError L e config) Ret)))
        (\<lambda>r. Act (handleError L (recovered_error r) config) Ret))"

text \<open>
  The \<open>gin.Context\<close> belongs to the gin library. Of it the adapter's error handler uses
  the error list, \<open>Abort()\<close>, \<open>Next()\<close> and \<open>JSON\<close>; the model keeps the error list, the
  abort mark and the \<open>JSON\<close> calls made, and takes \<open>gc.Next()\<close> as a parameter.
\<close>

record gin_Context =
  gin_Errors :: "err list"
  gin_aborted :: bool
  gin_JSON :: "(int \<times> ErrorResponse) list"

definition gin_Abort :: "gin_Context \<Rightarrow> gin_Context" where
  "gin_Abort gc = gc\<lparr>gin_aborted := True\<rparr>"

definition gin_handleError :: "err \<Rightarrow> ErrorHandlerConfig \<Rightarrow> gin_Context \<Rightarrow> gin_Context" where
  "gin_handleError e config gc =
     (case errors_As_HTTPError e of
        Some (code, msg) \<Rightarrow> gc\<lparr>gin_JSON := gin_JSON gc @ [(code, NewErrorResponse code msg)]\<rparr>
      | None \<Rightarrow> gc\<lparr>gin_JSON := gin_JSON gc @
                   [(DefaultStatusCode config,
                     NewErrorResponse (DefaultStatusCode config) (DefaultErrorMessage config))]\<rparr>)"

definition gin_ErrorHandlerMiddleware ::
  "ErrorHandlerConfig option \<Rightarrow> (gin_Context \<Rightarrow> gin_Context result) \<Rightarrow> gin_Context
     \<Rightarrow> gin_Context result" where
  "gin_ErrorHandlerMiddleware cfg gc_Next gc =
     (let config = (case cfg of None \<Rightarrow> DefaultErrorHandlerConfig | Some c \<Rightarrow> c) in
      case gc_Next gc of
        Returned gc1 \<Rightarrow>
          (case gin_Errors gc1 of
             [] \<Rightarrow> Returned gc1
           | e # es \<Rightarrow> Returned (gin_Abort (gin_handleError e config gc1)))
      | Panicking r gc1 \<Rightarrow> Returned (gin_Abort (gin_handleError (recovered_error r) config gc1))
      | OutOfFuel \<Rightarrow> OutOfFuel)"

section \<open>Authentication middleware (\<open>auth.go\<close>)\<close>

text \<open>
  The injected collaborators are objects with a state of their own. A call is given the
  trace so far, which holds every earlier call, and is itself recorded in the trace.
\<close>

type_synonym BasicAuthUserLookup = "event list \<Rightarrow> string \<Rightarrow> string \<Rightarrow> err + any"
type_synonym JWTUserLookup = "event list \<Rightarrow> MapClaims \<Rightarrow> err + any"

record UserLookupInterface =
  LookupUserByBasicAuth :: BasicAuthUserLookup
  LookupUserByJWT :: JWTUserLookup

record AuthConfig =
  UserLookup :: "UserLookupInterface option"
  BasicAuthLookup :: "BasicAuthUserLookup option"
  JWTLookup :: "JWTUserLookup option"
  AuthType :: string
  JWTSecret :: string
  UnauthorizedMessage :: string
  ForbiddenMessage :: string
  SkipPaths :: "string list"

definition AuthTypeBasic :: string where "AuthTypeBasic = ''basic''"
definition AuthTypeJWT :: string where "AuthTypeJWT = ''jwt''"

definition DefaultAuthConfig :: AuthConfig where
  "DefaultAuthConfig =
     \<lparr>UserLookup = None, BasicAuthLookup = None, JWTLookup = None, AuthType = AuthTypeJWT,
      JWTSecret = [], UnauthorizedMessage = ''Unauthorized'', ForbiddenMessage = ''Forbidden'',
      SkipPaths = []\<rparr>"

definition base64URLDecode :: "stdlib \<Rightarrow> string \<Rightarrow> string + string" where
  "base64URLDecode L s =
     (let m = length s mod 4;
          s1 = (if m \<noteq> 0 then s @ replicate (4 - m) CHR ''='' else s);
          s2 = strings_ReplaceAll CHR ''-'' CHR ''+'' s1;
          s3 = strings_ReplaceAll CHR ''_'' CHR ''/'' s2
      in base64_DecodeString L s3)"

definition createHmacSignature :: "stdlib \<Rightarrow> string \<Rightarrow> string \<Rightarrow> string" where
  "createHmacSignature L data secret = hmac_sha256 L secret data"

text \<open>\<open>hmac.Equal\<close>: equality of the two byte strings (its constant running time is not a
  matter of the value it returns).\<close>

definition hmac_Equal :: "string \<Rightarrow> string \<Rightarrow> bool" where
  "hmac_Equal a b = (a = b)"

definition parseJWT :: "stdlib \<Rightarrow> string \<Rightarrow> string \<Rightarrow> err + MapClaims" where
  "parseJWT L tokenString secret =
     (let parts = strings_Split CHR ''.'' tokenString in
      if length parts \<noteq> 3 then Inl (GenericError ''invalid token format'')
      else case base64URLDecode L (parts ! 0) of
        Inl e \<Rightarrow> Inl (Wrapped ''invalid token header: '' (GenericError e))
      | Inr headerJSON \<Rightarrow>
      (case json_Unmarshal L headerJSON of
        Inl e \<Rightarrow> Inl (Wrapped ''invalid token header: '' (GenericError e))
      | Inr header \<Rightarrow>
      (if (case map_of header ''alg'' of Some (JString alg) \<Rightarrow> alg \<noteq> ''HS256'' | _ \<Rightarrow> True)
       then Inl (GenericError ''unsupported signing method'')
       else case base64URLDecode L (parts ! 1) of
        Inl e \<Rightarrow> Inl (Wrapped ''invalid token payload: '' (GenericError e))
      | Inr payloadJSON \<Rightarrow>
      (case json_Unmarshal L payloadJSON of
        Inl e \<Rightarrow> Inl (Wrapped ''invalid token payload: '' (GenericError e))
      | Inr claims \<Rightarrow>
      (case base64URLDecode L (parts ! 2) of
        Inl e \<Rightarrow> Inl (Wrapped ''invalid token signature: '' (GenericError e))
      | Inr signatureBytes \<Rightarrow>
      (let signatureString = parts ! 0 @ ''.'' @ parts ! 1;
           expectedSignature = createHmacSignature L signatureString secret
       in if \<not> hmac_Equal signatureBytes expectedSignature
          then Inl (GenericError ''invalid token signature'')
          else (case map_of claims ''exp'' of
                  Some (JNumber exp) \<Rightarrow>
                    (if time_Now_Unix L > exp then Inl (GenericError ''token expired'')
                     else Inr claims)
                | _ \<Rightarrow> Inr claims)))))))"

definition handleBearerToken ::
  "stdlib \<Rightarrow> string \<Rightarrow> string \<Rightarrow> JWTUserLookup \<Rightarrow> event list \<Rightarrow> (err + any) \<times> event list" where
  "handleBearerToken L tokenString secret lookup tr =
     (case parseJWT L tokenString secret of
        Inl e \<Rightarrow> (Inl (Wrapped ''invalid token: '' e), tr)
      | Inr claims \<Rightarrow>
          (case lookup tr claims of
             Inl e \<Rightarrow> (Inl (Wrapped ''authentication failed: '' e), tr @ [Ev_LookupUserByJWT claims])
           | Inr user \<Rightarrow> (Inr user, tr @ [Ev_LookupUserByJWT claims])))"

definition handleBasicAuth ::
  "stdlib \<Rightarrow> string \<Rightarrow> BasicAuthUserLookup \<Rightarrow> event list \<Rightarrow> (err + any) \<times> event list" where
  "handleBasicAuth L credentials lookup tr =
     (case base64_DecodeString L credentials of
        Inl e \<Rightarrow> (Inl (GenericError ''invalid basic auth format''), tr)
      | Inr userPass \<Rightarrow>
          (let parts = strings_SplitN2 CHR '':'' userPass in
           if length parts \<noteq> 2 then (Inl (GenericError ''invalid basic auth format''), tr)
           else (let username = parts ! 0; password = parts ! 1 in
                 case lookup tr username password of
                   Inl e \<Rightarrow> (Inl (Wrapped ''authentication failed: '' e),
                             tr @ [Ev_LookupUserByBasicAuth username password])
                 | Inr user \<Rightarrow> (Inr user, tr @ [Ev_LookupUserByBasicAuth username password]))))"

text \<open>\<open>c.SetStatus(code)\<close> followed by \<open>c.JSON(code, _)\<close>, the way the middleware answers
  on every failure, after which it returns.\<close>

definition respond :: "stdlib \<Rightarrow> int \<Rightarrow> ErrorResponse \<Rightarrow> hprog" where
  "respond L code body = Act (Context_SetStatus code) (Act (Context_JSON L code body) Ret)"

text \<open>The end of the handler, from \<open>if err != nil\<close> on.\<close>

definition auth_result :: "stdlib \<Rightarrow> AuthConfig \<Rightarrow> err + any \<Rightarrow> hprog" where
  "auth_result L config res =
     (case res of
        Inl e \<Rightarrow>
          (if errors_Is_ErrForbidden e
           then respond L 403 (NewForbiddenResponse (ForbiddenMessage config))
           else respond L 401 (NewUnauthorizedResponse (UnauthorizedMessage config)))
      | Inr user \<Rightarrow> Act (\<lambda>c. c\<lparr>req := (req c)\<lparr>ctx_user := Some user\<rparr>\<rparr>) Ret)"

text \<open>The handler that \<open>AuthMiddleware\<close> returns. Calling a method of a nil collaborator
  is Go's nil-pointer panic; the validation at construction excludes it.\<close>

definition auth_handler :: "stdlib \<Rightarrow> AuthConfig \<Rightarrow> hprog" where
  "auth_handler L config =
     Branch (\<lambda>c.
       let path = URL_Path (req c) in
       if path \<in> set (SkipPaths config) then Ret
       else
         let authHeader = Context_GetHeader ''Authorization'' c in
         if authHeader = [] then respond L 401 (NewUnauthorizedResponse (UnauthorizedMessage config))
         else
           let parts = strings_SplitN2 CHR '' '' authHeader in
           if length parts \<noteq> 2
           then respond L 401 (NewUnauthorizedResponse ''Invalid authorization format'')
           else
             let authType = parts ! 0; credentials = parts ! 1 in
             if AuthType config = AuthTypeBasic then
               (if authType \<noteq> ''Basic''
                then respond L 401 (NewUnauthorizedResponse ''Basic authentication required'')
                else
                  (case (case BasicAuthLookup config of
                           Some l \<Rightarrow> Some l
                         | None \<Rightarrow> map_option LookupUserByBasicAuth (UserLookup config)) of
                     None \<Rightarrow> Panic (PError (GenericError ''nil pointer dereference''))
                   | Some basicLookup \<Rightarrow>
                       (let r = handleBasicAuth L credentials basicLookup (trace c)
                        in Act (\<lambda>c. c\<lparr>trace := snd r\<rparr>) (auth_result L config (fst r)))))
             else if AuthType config = AuthTypeJWT then
               (if authType \<noteq> ''Bearer''
                then respond L 401 (NewUnauthorizedResponse ''Bearer token required'')
                else
                  (case (case JWTLookup config of
                           Some l \<Rightarrow> Some l
                         | None \<Rightarrow> map_option LookupUserByJWT (UserLookup config)) of
                     None \<Rightarrow> Panic (PError (GenericError ''nil pointer dereference''))
                   | Some jwtLookup \<Rightarrow>
                       (let r = handleBearerToken L credentials (JWTSecret config) jwtLookup (trace c)
                        in Act (\<lambda>c. c\<lparr>trace := snd r\<rparr>) (auth_result L config (fst r)))))
             else respond L 500
                    (NewInternalServerErrorResponse ''Invalid authentication configuration''))"

text \<open>\<open>AuthMiddleware\<close>: the configuration is checked when the middleware is built, and a
  bad one panics there (\<open>Inl\<close> with the panic message).\<close>

definition AuthMiddleware :: "stdlib \<Rightarrow> AuthConfig option \<Rightarrow> string + hprog" where
  "AuthMiddleware L cfg =
     (let config = (case cfg of None \<Rightarrow> DefaultAuthConfig | Some c \<Rightarrow> c) in
      if AuthType config = AuthTypeBasic then
        (if UserLookup config = None \<and> BasicAuthLookup config = None
         then Inl ''AuthMiddleware with AuthTypeBasic requires either UserLookup or BasicAuthLookup implementation''
         else Inr (auth_handler L config))
      else if AuthType config = AuthTypeJWT then
        (if UserLookup config = None \<and> JWTLookup config = None
         then Inl ''AuthMiddleware with AuthTypeJWT requires either UserLookup or JWTLookup implementation''
         else if JWTSecret config = []
         then Inl ''JWTSecret is required when using JWT authentication''
         else Inr (auth_handler L config))
      else Inl ''Invalid AuthType specified'')"

section \<open>Duplicate-request middleware (\<open>duprequest.go\<close>)\<close>

record RequestIDStorage =
  CheckRequestID :: "event list \<Rightarrow> string \<Rightarrow> err + bool"
  SaveRequestID :: "event list \<Rightarrow> string \<Rightarrow> err option"

type_synonym RequestIDGenerator = "event list \<Rightarrow> Request \<Rightarrow> err + string"

record DuplicateRequestConfig =
  RequestIDGenerator :: "RequestIDGenerator option"
  RequestIDStorage :: "RequestIDStorage option"
  ConflictMessage :: string

definition DefaultDuplicateRequestConfig :: DuplicateRequestConfig where
  "DefaultDuplicateRequestConfig =
     \<lparr>RequestIDGenerator = None, RequestIDStorage = None,
      ConflictMessage = ''Duplicate request detected''\<rparr>"

definition record_call :: "event \<Rightarrow> ctx_data \<Rightarrow> ctx_data" where
  "record_call ev c = c\<lparr>trace := trace c @ [ev]\<rparr>"

definition duplicate_handler ::
  "stdlib \<Rightarrow> RequestIDGenerator \<Rightarrow> RequestIDStorage \<Rightarrow> string \<Rightarrow> hprog" where
  "duplicate_handler L generator storage conflictMessage =
     Branch (\<lambda>c.
       case generator (trace c) (req c) of
         Inl e \<Rightarrow>
           Act (record_call Ev_GenerateRequestID)
             (Act (Context_JSON L 500
                     (NewInternalServerErrorResponse ''Failed to generate request ID'')) Ret)
       | Inr requestID \<Rightarrow>
           Act (record_call Ev_GenerateRequestID)
             (Branch (\<lambda>c.
                case CheckRequestID storage (trace c) requestID of
                  Inl e \<Rightarrow>
                    Act (record_call (Ev_CheckRequestID requestID))
                      (Act (Context_JSON L 500
                              (NewInternalServerErrorResponse ''Failed to check request ID'')) Ret)
                | Inr exists \<Rightarrow>
                    Act (record_call (Ev_CheckRequestID requestID))
                      (if exists
                       then Act (Context_JSON L 409 (NewConflictResponse conflictMessage)) Ret
                       else Branch (\<lambda>c.
                              case SaveRequestID storage (trace c) requestID of
                                Some e \<Rightarrow>
                                  Act (record_call (Ev_SaveRequestID requestID))
                                    (Act (Context_JSON L 500
                                            (NewInternalServerErrorResponse
                                               ''Failed to save request ID'')) Ret)
                              | None \<Rightarrow>
                                  Act (record_call (Ev_SaveRequestID requestID))
                                    (CallNext Ret))))))"

definition DuplicateRequestMiddleware ::
  "stdlib \<Rightarrow> DuplicateRequestConfig option \<Rightarrow> string + hprog" where
  "DuplicateRequestMiddleware L cfg =
     (let config = (case cfg of None \<Rightarrow> DefaultDuplicateRequestConfig | Some c \<Rightarrow> c) in
      case RequestIDGenerator config of
        None \<Rightarrow> Inl ''DuplicateRequestMiddleware requires a RequestIDGenerator implementation''
      | Some generator \<Rightarrow>
          (case RequestIDStorage config of
             None \<Rightarrow> Inl ''DuplicateRequestMiddleware requires a RequestIDStorage implementation''
           | Some storage \<Rightarrow>
               Inr (duplicate_handler L generator storage (ConflictMessage config))))"

subsection \<open>Example inputs\<close>

definition example_request :: "string \<Rightarrow> Request" where
  "example_request path =
     \<lparr>Method = ''GET'', URL_Path = path, Header = Map.empty, ctx_user = None\<rparr>"

text \<open>A stand-in for the library functions, for evaluating examples: base64 and JSON
  decoding that fail, an encoder that writes the message only, a constant MAC, no glob
  match, a clock at zero.\<close>

definition example_stdlib :: stdlib where
  "example_stdlib =
     \<lparr>base64_DecodeString = (\<lambda>s. Inl ''illegal base64 data''),
      json_Unmarshal = (\<lambda>s. Inl ''invalid character''),
      json_Encode = (\<lambda>e. Message e), hmac_sha256 = (\<lambda>k d. ''mac''),
      path_Match = (\<lambda>p s. False), time_Now_Unix = 0, time_Now_UnixNano = 0,
      time_Since_Milliseconds = 0\<rparr>"

text \<open>A second stand-in, for tokens: base64 decoding that only drops the padding, a
  parser that reads \<open>key:value\<close> as a one-entry object with a string value, and a MAC
  that is always \<open>mac\<close>.\<close>

definition example_stdlib_jwt :: stdlib where
  "example_stdlib_jwt =
     \<lparr>base64_DecodeString = (\<lambda>s. Inr (takeWhile (\<lambda>c. c \<noteq> CHR ''='') s)),
      json_Unmarshal = (\<lambda>s. if CHR '':'' \<in> set s
                              then Inr [(takeWhile (\<lambda>c. c \<noteq> CHR '':'') s,
                                         JString (tl (dropWhile (\<lambda>c. c \<noteq> CHR '':'') s)))]
                              else Inl ''invalid character''),
      json_Encode = (\<lambda>e. Message e), hmac_sha256 = (\<lambda>k d. ''mac''),
      path_Match = (\<lambda>p s. False), time_Now_Unix = 0, time_Now_UnixNano = 0,
      time_Since_Milliseconds = 0\<rparr>"

text \<open>The configuration of \<open>examples/auth/main.go\<close>, with a lookup that accepts every
  claim set, and the logging configuration of \<open>examples/logging/main.go\<close>.\<close>

definition example_auth_config :: AuthConfig where
  "example_auth_config =
     \<lparr>UserLookup = None, BasicAuthLookup = None,
      JWTLookup = Some (\<lambda>tr claims. Inr (Str ''alice'')),
      AuthType = AuthTypeJWT, JWTSecret = ''your-secret-key'',
      UnauthorizedMessage = ''Unauthorized'', ForbiddenMessage = ''Forbidden'',
      SkipPaths = [''/public'', ''/api/docs/*'', ''/api/users/:id/profile'']\<rparr>"

definition example_logging_config :: LoggingConfig where
  "example_logging_config =
     \<lparr>RemoteURL = [], LoggingToConsole = True, LoggingToRemote = False,
      Logging_SkipPaths = [''/health'', ''/favicon.ico'']\<rparr>"

definition example_request_bearer :: "string \<Rightarrow> string \<Rightarrow> Request" where
  "example_request_bearer path token =
     \<lparr>Method = ''GET'', URL_Path = path,
      Header = [''Authorization'' \<mapsto> ''Bearer '' @ token], ctx_user = None\<rparr>"

text \<open>An in-memory store of request ids read off the trace: an id exists when it was
  saved before. The generator takes the request path as the id. Three paths make the
  generator, the check and the save fail.\<close>

definition example_storage :: RequestIDStorage where
  "example_storage =
     \<lparr>CheckRequestID = (\<lambda>tr requestID.
          if requestID = ''/checkfail'' then Inl (GenericError ''store down'')
          else Inr (Ev_SaveRequestID requestID \<in> set tr)),
      SaveRequestID = (\<lambda>tr requestID.
          if requestID = ''/savefail'' then Some (GenericError ''store full'') else None)\<rparr>"

definition example_generator :: RequestIDGenerator where
  "example_generator tr r =
     (if URL_Path r = ''/genfail'' then Inl (GenericError ''no id'') else Inr (URL_Path r))"

definition example_duplicate_config :: DuplicateRequestConfig where
  "example_duplicate_config =
     \<lparr>RequestIDGenerator = Some example_generator,
      RequestIDStorage = Some example_storage,
      ConflictMessage = ''Duplicate request detected''\<rparr>"

definition example_gin_Context :: gin_Context where
  "example_gin_Context = \<lparr>gin_Errors = [], gin_aborted = False, gin_JSON = []\<rparr>"

fun trace_of :: "Context result \<Rightarrow> event list" where
  "trace_of (Returned c) = trace (cd c)"
| "trace_of (Panicking v c) = trace (cd c)"
| "trace_of OutOfFuel = []"

fun gin_JSON_of :: "gin_Context result \<Rightarrow> (int \<times> ErrorResponse) list" where
  "gin_JSON_of (Returned gc) = gin_JSON gc"
| "gin_JSON_of (Panicking v gc) = gin_JSON gc"
| "gin_JSON_of OutOfFuel = []"

text \<open>A server with the middlewares \<open>ms\<close> and one route, \<open>GET path\<close>, handled by \<open>h\<close>.\<close>

definition example_server :: "string \<Rightarrow> hprog list \<Rightarrow> hprog \<Rightarrow> Server" where
  "example_server path ms h =
     \<lparr>routes = (\<lambda>method. if method = ''GET'' then [path \<mapsto> [h]] else Map.empty),
      middleware = ms, noRouteHandlers = [], noMethodHandlers = []\<rparr>"


section \<open>Properties of the chain walk\<close>

lemma run_h_in_handler:
  assumes nxt: "\<And>c. in_handler hs i c \<Longrightarrow> res_ok (in_handler hs i) (in_handler hs i) (nxt c)"
  shows "in_handler hs i c \<Longrightarrow> res_ok (in_handler hs i) (in_handler hs i) (run_h p nxt c)"
proof (induction p arbitrary: c)
  case Ret
  then show ?case by simp
next
  case (Act f p)
  have "in_handler hs i (c\<lparr>cd := f (cd c)\<rparr>)" using Act.prems by (simp add: in_handler_def)
  then show ?case using Act.IH by simp
next
  case (Branch f)
  then show ?case by simp
next
  case (CallNext p)
  show ?case using nxt[OF CallNext.prems] CallNext.IH
    by (cases "nxt c") auto
next
  case (Panic v)
  then show ?case by simp
next
  case (Recover p h)
  show ?case using Recover.IH(1)[OF Recover.prems] Recover.IH(2)
    by (cases "run_h p nxt c") auto
qed

lemma at_loop_incr: "in_handler hs i c \<Longrightarrow> at_loop hs (i + 1) (index_incr c)"
  by (auto simp: in_handler_def at_loop_def index_incr_def)

lemma in_handler_enter:
  "at_loop hs i c \<Longrightarrow> index c < int (length hs) \<Longrightarrow>
   in_handler hs (index c) (c\<lparr>ran := ran c @ [nat (index c)]\<rparr>)"
  by (auto simp: in_handler_def at_loop_def min_def nat_add_distrib)

lemma in_handler_weaken: "in_handler hs j c \<Longrightarrow> 0 \<le> i \<Longrightarrow> i \<le> j \<Longrightarrow> in_handler hs i c"
  by (auto simp: in_handler_def)

lemma finished_in_handler:
  "finished hs c \<Longrightarrow> 0 \<le> i \<Longrightarrow> i < int (length hs) \<Longrightarrow> in_handler hs i c"
  by (auto simp: finished_def in_handler_def min_def)

lemma res_ok_mono:
  "res_ok P Q r \<Longrightarrow> (\<And>c. P c \<Longrightarrow> P' c) \<Longrightarrow> (\<And>c. Q c \<Longrightarrow> Q' c) \<Longrightarrow> res_ok P' Q' r"
  by (cases r) auto

text \<open>The loop of \<open>Next\<close>, entered with enough fuel for the handlers left, either returns
  with every handler entered or hands on a panic; it does not run out of fuel.\<close>

lemma Next_loop_ok:
  "at_loop hs i c \<Longrightarrow> nat (int (length hs) - index c) \<le> n \<Longrightarrow>
   res_ok (finished hs) (in_handler hs i) (Next_loop n c)"
proof (induction n arbitrary: c i)
  case 0
  then show ?case by (auto simp: at_loop_def finished_def)
next
  case (Suc n)
  show ?case
  proof (cases "index c < handlerCount c")
    case False
    then show ?thesis using Suc.prems by (auto simp: at_loop_def finished_def)
  next
    case True
    let ?j = "index c"
    let ?c0 = "c\<lparr>ran := ran c @ [nat (index c)]\<rparr>"
    let ?nxt = "\<lambda>c'. Next_loop n (index_incr c')"
    have hc: "handlerCount c = int (length hs)" "handlers c = hs" "0 \<le> ?j" "i \<le> ?j" "0 \<le> i"
      using Suc.prems by (auto simp: at_loop_def)
    have lt: "?j < int (length hs)" using True hc by simp
    have inb: "0 \<le> index c \<and> nat (index c) < length (handlers c)" using lt hc by auto
    have c0: "in_handler hs ?j ?c0" using in_handler_enter[OF Suc.prems(1) lt] .
    have nxt_ok: "res_ok (in_handler hs ?j) (in_handler hs ?j) (?nxt c')"
      if "in_handler hs ?j c'" for c'
    proof -
      have a: "at_loop hs (?j + 1) (index_incr c')" using at_loop_incr[OF that] .
      have b: "nat (int (length hs) - index (index_incr c')) \<le> n"
        using that Suc.prems(2) by (auto simp: in_handler_def index_incr_def)
      have "res_ok (finished hs) (in_handler hs (?j + 1)) (?nxt c')" using Suc.IH[OF a b] .
      then show ?thesis
        using finished_in_handler[of hs _ ?j] in_handler_weaken[of hs "?j + 1" _ ?j] hc lt
        by (auto elim!: res_ok_mono)
    qed
    have body: "res_ok (in_handler hs ?j) (in_handler hs ?j)
                  (run_h (handlers c ! nat ?j) ?nxt ?c0)"
      using run_h_in_handler[of hs ?j ?nxt ?c0 "handlers c ! nat ?j"] nxt_ok c0 by blast
    show ?thesis
    proof (cases "run_h (handlers c ! nat ?j) ?nxt ?c0")
      case (Returned c')
      then have g: "in_handler hs ?j c'" using body by simp
      have a: "at_loop hs (?j + 1) (index_incr c')" using at_loop_incr[OF g] .
      have b: "nat (int (length hs) - index (index_incr c')) \<le> n"
        using g Suc.prems(2) by (auto simp: in_handler_def index_incr_def)
      have "res_ok (finished hs) (in_handler hs (?j + 1)) (Next_loop n (index_incr c'))"
        using Suc.IH[OF a b] .
      then have "res_ok (finished hs) (in_handler hs i) (Next_loop n (index_incr c'))"
        using in_handler_weaken[of hs "?j + 1" _ i] hc by (auto elim!: res_ok_mono)
      then show ?thesis using True inb Returned by simp
    next
      case (Panicking v c')
      then have g: "in_handler hs ?j c'" using body by simp
      then have "in_handler hs i c'" using in_handler_weaken hc by blast
      then show ?thesis using True inb Panicking by simp
    next
      case OutOfFuel
      then show ?thesis using body by simp
    qed
  qed
qed

lemma Context_Next_new_Context:
  assumes "length hs \<le> fuel"
  shows "res_ok (finished hs) (in_handler hs 0) (Context_Next fuel (new_Context r tr hs))"
proof -
  have "at_loop hs 0 (index_incr (new_Context r tr hs))"
    by (simp add: at_loop_def index_incr_def new_Context_def)
  moreover have "nat (int (length hs) - index (index_incr (new_Context r tr hs))) \<le> fuel"
    using assms by (simp add: index_incr_def new_Context_def)
  ultimately show ?thesis unfolding Context_Next_def by (rule Next_loop_ok)
qed

text \<open>
  C1, as stated, fails: a middleware that writes status 401 and returns without calling
  \<open>Next()\<close> (there is no \<open>Abort()\<close> to call) is followed by the route handler at
  position 1, which is entered all the same.
\<close>

theorem C1_counterexample:
  "ran_of (handleHTTP
             (example_server ''/x'' [Act (Context_SetStatus 401) Ret]
                             (Act (Context_String 200 ''secret'') Ret))
             ''GET'' ''/x'' 2 [] (example_request ''/x'')) = [0, 1]"
  by (simp add: handleHTTP_def example_server_def example_request_def Context_Next_def
        new_Context_def index_incr_def numeral_2_eq_2)

text \<open>
  C1 (amended). In the minimal engine a handler that returns without calling \<open>Next()\<close>
  does not stop the chain: the loop of the enclosing \<open>Next()\<close> advances the cursor and
  enters the handler at the next position. For a registered route, the \<open>Next()\<close> that
  \<open>handleHTTP\<close> calls terminates, and unless a panic leaves the chain it has entered every
  handler of the chain (middlewares, then route handlers) exactly once and in order,
  whether or not the handlers call \<open>Next()\<close>; when a panic leaves the chain, the
  handlers entered are an initial segment of the chain.
\<close>

theorem C1_handleHTTP_enters_every_handler:
  assumes "Method r = method" and "routes s method path = Some hs"
    and "length (middleware s @ hs) \<le> fuel"
  shows "case handleHTTP s method path fuel tr r of
           Returned c \<Rightarrow> ran c = [0..<length (middleware s @ hs)]
         | Panicking v c \<Rightarrow> (\<exists>k \<le> length (middleware s @ hs). ran c = [0..<k])
         | OutOfFuel \<Rightarrow> False"
proof -
  let ?hs = "middleware s @ hs"
  have eq: "handleHTTP s method path fuel tr r = Context_Next fuel (new_Context r tr ?hs)"
    using assms(1,2) by (simp add: handleHTTP_def)
  have ok: "res_ok (finished ?hs) (in_handler ?hs 0) (Context_Next fuel (new_Context r tr ?hs))"
    using Context_Next_new_Context[OF assms(3)] .
  show ?thesis
  proof (cases "Context_Next fuel (new_Context r tr ?hs)")
    case (Returned c)
    then show ?thesis using ok eq by (simp add: finished_def)
  next
    case (Panicking v c)
    then have "ran c = [0..<nat (min (index c + 1) (int (length ?hs)))]"
      using ok by (simp add: in_handler_def)
    moreover have "nat (min (index c + 1) (int (length ?hs))) \<le> length ?hs" by simp
    ultimately have "\<exists>k \<le> length ?hs. ran c = [0..<k]" by blast
    then show ?thesis using Panicking eq by simp
  next
    case OutOfFuel
    then show ?thesis using ok by simp
  qed
qed

theorem C1_witness:
  "Method (example_request ''/x'') = ''GET''
   \<and> routes (example_server ''/x'' [Ret] (CallNext Ret)) ''GET'' ''/x'' = Some [CallNext Ret]
   \<and> length (middleware (example_server ''/x'' [Ret] (CallNext Ret)) @ [CallNext Ret]) \<le> 2
   \<and> (case handleHTTP (example_server ''/x'' [Ret] (CallNext Ret)) ''GET'' ''/x'' 2 []
              (example_request ''/x'') of
         Returned c \<Rightarrow> ran c = [0..<2]
       | Panicking v c \<Rightarrow> (\<exists>k \<le> 2. ran c = [0..<k])
       | OutOfFuel \<Rightarrow> False)"
proof -
  let ?s = "example_server ''/x'' [Ret] (CallNext Ret)"
  have a: "Method (example_request ''/x'') = ''GET''" by (simp add: example_request_def)
  have b: "routes ?s ''GET'' ''/x'' = Some [CallNext Ret]"
    by (simp add: example_server_def)
  have c: "length (middleware ?s @ [CallNext Ret]) \<le> 2"
    by (simp add: example_server_def)
  have d: "length (middleware ?s @ [CallNext Ret]) = 2"
    by (simp add: example_server_def)
  show ?thesis
    using C1_handleHTTP_enters_every_handler[OF a b c, of "[]"] a b c unfolding d by simp
qed

section \<open>The key/value store\<close>

lemma Context_Get_unset:
  "keys c0 = None \<or> (\<exists>m. keys c0 = Some m \<and> m k = None) \<Longrightarrow> k \<notin> fst ` set kvs \<Longrightarrow>
   Context_Get (foldl (\<lambda>c (k', v'). Context_Set k' v' c) c0 kvs) k = (Nil, False)"
proof (induction kvs arbitrary: c0)
  case Nil
  then show ?case by (auto simp: Context_Get_def)
next
  case (Cons a kvs)
  obtain k' v' where a: "a = (k', v')" by (cases a)
  have "\<exists>m. keys (Context_Set k' v' c0) = Some m \<and> m k = None"
    using Cons.prems a by (auto simp: Context_Set_def)
  then show ?case using Cons.IH[of "Context_Set k' v' c0"] Cons.prems a by auto
qed

text \<open>
  C10. The key/value store of the per-request context is a finite map with a found flag:
  \<open>Set(k, v)\<close> followed by \<open>Get(k)\<close> gives \<open>(v, true)\<close> on any context; and on a context
  whose store was never allocated (\<open>keys\<close> nil) or was allocated empty, after any
  sequence of \<open>Set\<close> calls on other keys, \<open>Get(k)\<close> gives \<open>(nil, false)\<close>. \<open>Get\<close> is
  total: the nil store is a case of its own, not a failure.
\<close>

theorem C10_Context_Set_Get:
  "Context_Get (Context_Set k v c) k = (v, True)
   \<and> ((keys c0 = None \<or> keys c0 = Some Map.empty) \<longrightarrow> k \<notin> fst ` set kvs \<longrightarrow>
        Context_Get (foldl (\<lambda>c (k', v'). Context_Set k' v' c) c0 kvs) k = (Nil, False))"
proof -
  have "Context_Get (Context_Set k v c) k = (v, True)"
    by (simp add: Context_Get_def Context_Set_def)
  moreover have "Context_Get (foldl (\<lambda>c (k', v'). Context_Set k' v' c) c0 kvs) k = (Nil, False)"
    if "keys c0 = None \<or> keys c0 = Some Map.empty" and "k \<notin> fst ` set kvs"
    using Context_Get_unset[of c0 k kvs] that by auto
  ultimately show ?thesis by blast
qed

theorem C10_witness:
  "Context_Get (Context_Set ''user'' (Str ''alice'') (cd (new_Context (example_request ''/x'') [] []))) ''user''
     = (Str ''alice'', True)
   \<and> keys ((cd (new_Context (example_request ''/x'') [] []))\<lparr>keys := None\<rparr>) = None
   \<and> ''user'' \<notin> fst ` set [(''role'', Str ''admin'')]
   \<and> Context_Get (foldl (\<lambda>c (k', v'). Context_Set k' v' c)
                     ((cd (new_Context (example_request ''/x'') [] []))\<lparr>keys := None\<rparr>)
                     [(''role'', Str ''admin'')]) ''user'' = (Nil, False)"
  using C10_Context_Set_Get[of "''user''" "Str ''alice''" "cd (new_Context (example_request ''/x'') [] [])"
          "(cd (new_Context (example_request ''/x'') [] []))\<lparr>keys := None\<rparr>" "[(''role'', Str ''admin'')]"]
  by simp




section \<open>Properties of the response writers and of the logging middleware\<close>

lemmas example_eval =
  handleHTTP_def example_server_def example_request_def Context_Next_def
  new_Context_def index_incr_def LoggingMiddleware_def DefaultLoggingConfig_def
  Context_SetStatus_def Context_String_def Context_SetHeader_def Header_Set_def
  Header_Get_def http_WriteHeader_def http_Write_def new_ResponseWriter_def
  Status_at_def Status_def ProcessLog_def CreateLogEntry_def maskAuthorizationBool_def
  client_status_def client_body_def logged_statuses_def logged_paths_def example_stdlib_def
  Let_def auth_handler_def example_auth_config_def example_logging_config_def respond_def
  Context_JSON_def Context_GetHeader_def AuthTypeJWT_def AuthTypeBasic_def
  NewUnauthorizedResponse_def NewErrorResponse_def numeral_2_eq_2

text \<open>
  C2 (the code departs from the claim). Two requests through the logging middleware of
  the minimal engine. In the first the route handler calls \<open>SetStatus(404)\<close> and then
  \<open>String(500, "boom")\<close>. In the second the authentication middleware stands between the
  logging middleware and the route handler, the request has no \<open>Authorization\<close> header, so
  the authentication middleware answers 401 and returns, and the route handler then calls
  \<open>String(200, "secret")\<close>. The engine's writer keeps the first status, so the client
  receives 404 and 401, and every body write passes through; the wrapper's
  \<open>WriteHeader\<close> overwrites its recorded status on every call, so the middleware logs 500
  and 200.
\<close>

theorem C2_logged_status_differs:
  "client_status (handleHTTP
       (example_server ''/x'' [LoggingMiddleware example_stdlib None]
          (Act (Context_SetStatus 404) (Act (Context_String 500 ''boom'') Ret)))
       ''GET'' ''/x'' 2 [] (example_request ''/x'')) = Some 404
   \<and> client_body (handleHTTP
       (example_server ''/x'' [LoggingMiddleware example_stdlib None]
          (Act (Context_SetStatus 404) (Act (Context_String 500 ''boom'') Ret)))
       ''GET'' ''/x'' 2 [] (example_request ''/x'')) = Some [''boom'']
   \<and> logged_statuses (handleHTTP
       (example_server ''/x'' [LoggingMiddleware example_stdlib None]
          (Act (Context_SetStatus 404) (Act (Context_String 500 ''boom'') Ret)))
       ''GET'' ''/x'' 2 [] (example_request ''/x'')) = Some [500]
   \<and> client_status (handleHTTP
       (example_server ''/x''
          [LoggingMiddleware example_stdlib None, auth_handler example_stdlib example_auth_config]
          (Act (Context_String 200 ''secret'') Ret))
       ''GET'' ''/x'' 3 [] (example_request ''/x'')) = Some 401
   \<and> client_body (handleHTTP
       (example_server ''/x''
          [LoggingMiddleware example_stdlib None, auth_handler example_stdlib example_auth_config]
          (Act (Context_String 200 ''secret'') Ret))
       ''GET'' ''/x'' 3 [] (example_request ''/x'')) = Some [''Unauthorized'', ''secret'']
   \<and> logged_statuses (handleHTTP
       (example_server ''/x''
          [LoggingMiddleware example_stdlib None, auth_handler example_stdlib example_auth_config]
          (Act (Context_String 200 ''secret'') Ret))
       ''GET'' ''/x'' 3 [] (example_request ''/x'')) = Some [200]"
proof -
  let ?r1 = "handleHTTP
       (example_server ''/x'' [LoggingMiddleware example_stdlib None]
          (Act (Context_SetStatus 404) (Act (Context_String 500 ''boom'') Ret)))
       ''GET'' ''/x'' 2 [] (example_request ''/x'')"
  let ?r2 = "handleHTTP
       (example_server ''/x''
          [LoggingMiddleware example_stdlib None, auth_handler example_stdlib example_auth_config]
          (Act (Context_String 200 ''secret'') Ret))
       ''GET'' ''/x'' 3 [] (example_request ''/x'')"
  have a: "client_status ?r1 = Some 404" by (simp add: example_eval)
  have b: "client_body ?r1 = Some [''boom'']" by (simp add: example_eval)
  have c: "logged_statuses ?r1 = Some [500]" by (simp add: example_eval)
  have d: "client_status ?r2 = Some 401" by (simp add: example_eval numeral_3_eq_3)
  have e: "client_body ?r2 = Some [''Unauthorized'', ''secret'']"
    by (simp add: example_eval numeral_3_eq_3)
  have f: "logged_statuses ?r2 = Some [200]" by (simp add: example_eval numeral_3_eq_3)
  show ?thesis using a b c d e f by blast
qed

section \<open>Properties of the skip lists\<close>

text \<open>
  C3 (the code departs from the claim). With the skip list of \<open>examples/auth/main.go\<close>,
  the path \<open>/api/users/123/profile\<close> matches the entry \<open>/api/users/:id/profile\<close> for
  \<open>IsSkipPaths\<close>, yet the authentication middleware, which compares by string equality
  only, answers 401 to a request without an \<open>Authorization\<close> header. With the skip list
  of \<open>examples/logging/main.go\<close>, which holds \<open>/health\<close>, the logging middleware of the
  minimal engine writes a log record for \<open>GET /health\<close>: on a \<open>*std.Context\<close> it never
  reads the skip list.
\<close>

theorem C3_skip_list_not_honoured:
  "IsSkipPaths example_stdlib ''/api/users/123/profile'' (SkipPaths example_auth_config)
   \<and> AuthMiddleware example_stdlib (Some example_auth_config)
        = Inr (auth_handler example_stdlib example_auth_config)
   \<and> client_status (handleHTTP
        (example_server ''/api/users/123/profile''
           [auth_handler example_stdlib example_auth_config]
           (Act (Context_String 200 ''public profile'') Ret))
        ''GET'' ''/api/users/123/profile'' 2 [] (example_request ''/api/users/123/profile''))
       = Some 401
   \<and> ''/health'' \<in> set (Logging_SkipPaths example_logging_config)
   \<and> logged_paths (handleHTTP
        (example_server ''/health''
           [LoggingMiddleware example_stdlib (Some example_logging_config)]
           (Act (Context_String 200 ''ok'') Ret))
        ''GET'' ''/health'' 2 [] (example_request ''/health'')) = Some [''/health'']"
proof -
  have a: "IsSkipPaths example_stdlib ''/api/users/123/profile'' (SkipPaths example_auth_config)"
    by (simp add: example_auth_config_def isParamPatternMatch_def isWildcardMatch_def
          HasPrefix_colon_def example_stdlib_def)
  have b: "AuthMiddleware example_stdlib (Some example_auth_config)
        = Inr (auth_handler example_stdlib example_auth_config)"
    by (simp add: AuthMiddleware_def example_auth_config_def AuthTypeJWT_def AuthTypeBasic_def)
  have c: "client_status (handleHTTP
        (example_server ''/api/users/123/profile''
           [auth_handler example_stdlib example_auth_config]
           (Act (Context_String 200 ''public profile'') Ret))
        ''GET'' ''/api/users/123/profile'' 2 [] (example_request ''/api/users/123/profile''))
       = Some 401"
    by (simp add: example_eval)
  have d: "''/health'' \<in> set (Logging_SkipPaths example_logging_config)"
    by (simp add: example_logging_config_def)
  have e: "logged_paths (handleHTTP
        (example_server ''/health''
           [LoggingMiddleware example_stdlib (Some example_logging_config)]
           (Act (Context_String 200 ''ok'') Ret))
        ''GET'' ''/health'' 2 [] (example_request ''/health'')) = Some [''/health'']"
    by (simp add: example_eval)
  show ?thesis using a b c d e by blast
qed

section \<open>Properties of the authentication middleware\<close>

lemma SplitN2_Bearer:
  "strings_SplitN2 CHR '' '' (CHR ''B'' # CHR ''e'' # CHR ''a'' # CHR ''r'' # CHR ''e'' # CHR ''r''
      # CHR '' '' # t) = [''Bearer'', t]"
  by (simp add: strings_SplitN2_def)

lemma trace_Context_JSON: "trace (Context_JSON L code obj d) = trace d"
  by (simp add: Context_JSON_def Context_SetStatus_def Context_SetHeader_def Let_def)

lemma trace_Context_SetStatus: "trace (Context_SetStatus code d) = trace d"
  by (simp add: Context_SetStatus_def)

lemma req_Context_JSON: "req (Context_JSON L code obj d) = req d"
  by (simp add: Context_JSON_def Context_SetStatus_def Context_SetHeader_def Let_def)

lemma req_Context_SetStatus: "req (Context_SetStatus code d) = req d"
  by (simp add: Context_SetStatus_def)

lemma run_h_respond:
  "run_h (respond L code body) nxt c
     = Returned (c\<lparr>cd := Context_JSON L code body (Context_SetStatus code (cd c))\<rparr>)"
  by (simp add: respond_def)

text \<open>No error of \<open>parseJWT\<close> is the \<open>ErrForbidden\<close> sentinel.\<close>

lemma parseJWT_not_forbidden:
  "parseJWT L token secret = Inl e \<Longrightarrow> \<not> errors_Is_ErrForbidden e"
  by (auto simp: parseJWT_def Let_def split: if_splits sum.splits option.splits json.splits)

text \<open>In JWT mode, a Bearer token that \<open>parseJWT\<close> refuses is answered with 401 and the
  configured message, and the handler returns.\<close>

lemma auth_handler_JWT_reject:
  assumes "AuthMiddleware L (Some config) = Inr h"
    and "AuthType config = AuthTypeJWT"
    and "URL_Path (req (cd c)) \<notin> set (SkipPaths config)"
    and "Header (req (cd c)) ''Authorization'' = Some (''Bearer '' @ token)"
    and "parseJWT L token (JWTSecret config) = Inl e"
  shows "run_h h nxt c
     = Returned (c\<lparr>cd := Context_JSON L 401 (NewUnauthorizedResponse (UnauthorizedMessage config))
                            (Context_SetStatus 401 (cd c))\<rparr>)"
proof -
  have ne: "AuthTypeJWT \<noteq> AuthTypeBasic" by (simp add: AuthTypeJWT_def AuthTypeBasic_def)
  have h: "h = auth_handler L config"
    and lk: "UserLookup config \<noteq> None \<or> JWTLookup config \<noteq> None"
    using assms(1,2) ne by (auto simp: AuthMiddleware_def split: if_splits)
  obtain jwtLookup where jl:
    "(case JWTLookup config of Some l \<Rightarrow> Some l
      | None \<Rightarrow> map_option LookupUserByJWT (UserLookup config)) = Some jwtLookup"
    using lk by (cases "JWTLookup config"; cases "UserLookup config") auto
  have hb: "handleBearerToken L token (JWTSecret config) jwtLookup (trace (cd c))
              = (Inl (Wrapped ''invalid token: '' e), trace (cd c))"
    using assms(5) by (simp add: handleBearerToken_def)
  have nf: "\<not> errors_Is_ErrForbidden (Wrapped ''invalid token: '' e)"
    using parseJWT_not_forbidden[OF assms(5)] by simp
  have auth: "Context_GetHeader ''Authorization'' (cd c) = ''Bearer '' @ token"
    using assms(4) by (simp add: Context_GetHeader_def Header_Get_def)
  show ?thesis unfolding h
    using assms(2,3) ne auth jl hb nf
    by (simp add: auth_handler_def Let_def SplitN2_Bearer auth_result_def run_h_respond)
qed

lemma parseJWT_alg:
  assumes "\<forall>headerJSON header.
             base64URLDecode L (strings_Split CHR ''.'' token ! 0) = Inr headerJSON \<longrightarrow>
             json_Unmarshal L headerJSON = Inr header \<longrightarrow>
             map_of header ''alg'' \<noteq> Some (JString ''HS256'')"
  shows "\<exists>e. parseJWT L token secret = Inl e"
  using assms
  by (auto simp: parseJWT_def Let_def split: sum.splits option.splits json.splits)

lemma parseJWT_sig:
  assumes "\<forall>sig. base64URLDecode L (strings_Split CHR ''.'' token ! 2) = Inr sig \<longrightarrow>
             sig \<noteq> createHmacSignature L (strings_Split CHR ''.'' token ! 0 @ ''.'' @
                                              strings_Split CHR ''.'' token ! 1) secret"
  shows "\<exists>e. parseJWT L token secret = Inl e"
  using assms
  by (auto simp: parseJWT_def hmac_Equal_def Let_def split: sum.splits option.splits json.splits)

lemmas example_jwt_eval =
  example_stdlib_jwt_def example_auth_config_def example_request_bearer_def
  AuthMiddleware_def AuthTypeJWT_def AuthTypeBasic_def new_Context_def base64URLDecode_def
  strings_ReplaceAll_def createHmacSignature_def

text \<open>
  C5. In JWT mode, for a request whose path is not on the skip list and that carries
  \<open>Authorization: Bearer token\<close>: when the header segment of the token does not decode
  to a JSON object whose \<open>alg\<close> entry is the string \<open>HS256\<close> (it does not decode, does not
  parse, has no \<open>alg\<close>, has an \<open>alg\<close> that is not a string, or another algorithm), the
  middleware answers 401 with the configured message and returns, whatever the signature
  segment is; no lookup is called (the trace is unchanged) and no user is stored.
\<close>

theorem C5_alg_not_HS256_rejected:
  assumes "AuthMiddleware L (Some config) = Inr h"
    and "AuthType config = AuthTypeJWT"
    and "URL_Path (req (cd c)) \<notin> set (SkipPaths config)"
    and "Header (req (cd c)) ''Authorization'' = Some (''Bearer '' @ token)"
    and "\<forall>headerJSON header.
             base64URLDecode L (strings_Split CHR ''.'' token ! 0) = Inr headerJSON \<longrightarrow>
             json_Unmarshal L headerJSON = Inr header \<longrightarrow>
             map_of header ''alg'' \<noteq> Some (JString ''HS256'')"
  shows "\<exists>c'. run_h h nxt c = Returned c'
     \<and> cd c' = Context_JSON L 401 (NewUnauthorizedResponse (UnauthorizedMessage config))
                            (Context_SetStatus 401 (cd c))
     \<and> trace (cd c') = trace (cd c) \<and> ctx_user (req (cd c')) = ctx_user (req (cd c))"
proof -
  obtain e where "parseJWT L token (JWTSecret config) = Inl e"
    using parseJWT_alg[OF assms(5)] by blast
  from auth_handler_JWT_reject[OF assms(1-4) this]
  show ?thesis
    by (simp add: trace_Context_JSON trace_Context_SetStatus req_Context_JSON
          req_Context_SetStatus)
qed

text \<open>The witness: a token whose header says \<open>alg: none\<close> and whose signature segment
  equals the MAC.\<close>

theorem C5_witness:
  "AuthMiddleware example_stdlib_jwt (Some example_auth_config)
      = Inr (auth_handler example_stdlib_jwt example_auth_config)
   \<and> AuthType example_auth_config = AuthTypeJWT
   \<and> URL_Path (req (cd (new_Context
          (example_request_bearer ''/api/profile'' ''alg:none.sub:alice.mac'') [] [])))
        \<notin> set (SkipPaths example_auth_config)
   \<and> Header (req (cd (new_Context
          (example_request_bearer ''/api/profile'' ''alg:none.sub:alice.mac'') [] [])))
         ''Authorization'' = Some (''Bearer '' @ ''alg:none.sub:alice.mac'')
   \<and> base64URLDecode example_stdlib_jwt (strings_Split CHR ''.'' ''alg:none.sub:alice.mac'' ! 0)
        = Inr ''alg:none''
   \<and> json_Unmarshal example_stdlib_jwt ''alg:none'' = Inr [(''alg'', JString ''none'')]
   \<and> (\<exists>c'. run_h (auth_handler example_stdlib_jwt example_auth_config) (\<lambda>c. Returned c)
               (new_Context (example_request_bearer ''/api/profile'' ''alg:none.sub:alice.mac'')
                  [] [])
             = Returned c'
          \<and> trace (cd c') = [] \<and> ctx_user (req (cd c')) = None)"
proof -
  let ?c = "new_Context (example_request_bearer ''/api/profile'' ''alg:none.sub:alice.mac'') [] []"
  have a: "AuthMiddleware example_stdlib_jwt (Some example_auth_config)
      = Inr (auth_handler example_stdlib_jwt example_auth_config)"
    by (simp add: example_jwt_eval)
  have b: "AuthType example_auth_config = AuthTypeJWT" by (simp add: example_jwt_eval)
  have c: "URL_Path (req (cd ?c)) \<notin> set (SkipPaths example_auth_config)"
    by (simp add: example_jwt_eval)
  have d: "Header (req (cd ?c)) ''Authorization'' = Some (''Bearer '' @ ''alg:none.sub:alice.mac'')"
    by (simp add: example_jwt_eval)
  have e1: "base64URLDecode example_stdlib_jwt
              (strings_Split CHR ''.'' ''alg:none.sub:alice.mac'' ! 0) = Inr ''alg:none''"
    by (simp add: example_jwt_eval)
  have e2: "json_Unmarshal example_stdlib_jwt ''alg:none'' = Inr [(''alg'', JString ''none'')]"
    by (simp add: example_jwt_eval)
  have e: "\<forall>headerJSON header.
             base64URLDecode example_stdlib_jwt
               (strings_Split CHR ''.'' ''alg:none.sub:alice.mac'' ! 0) = Inr headerJSON \<longrightarrow>
             json_Unmarshal example_stdlib_jwt headerJSON = Inr header \<longrightarrow>
             map_of header ''alg'' \<noteq> Some (JString ''HS256'')"
    unfolding e1 using e2 by auto
  have t: "trace (cd ?c) = []" "ctx_user (req (cd ?c)) = None"
    by (simp_all add: example_jwt_eval)
  show ?thesis
    using C5_alg_not_HS256_rejected[OF a b c d e, of "\<lambda>c. Returned c"] a b c d e1 e2 t by auto
qed

text \<open>
  C6. In JWT mode, for a request whose path is not on the skip list and that carries
  \<open>Authorization: Bearer token\<close> with a token of three dot-separated segments: when the
  third segment does not decode to the HMAC-SHA256 of \<open>segment1.segment2\<close> under the
  configured secret, the middleware answers 401 with the configured message and returns;
  the lookup collaborator is not called (the trace is unchanged) and no user is stored.
\<close>

theorem C6_bad_signature_rejected:
  assumes "AuthMiddleware L (Some config) = Inr h"
    and "AuthType config = AuthTypeJWT"
    and "URL_Path (req (cd c)) \<notin> set (SkipPaths config)"
    and "Header (req (cd c)) ''Authorization'' = Some (''Bearer '' @ token)"
    and "length (strings_Split CHR ''.'' token) = 3"
    and "\<forall>sig. base64URLDecode L (strings_Split CHR ''.'' token ! 2) = Inr sig \<longrightarrow>
             sig \<noteq> createHmacSignature L (strings_Split CHR ''.'' token ! 0 @ ''.'' @
                                              strings_Split CHR ''.'' token ! 1) (JWTSecret config)"
  shows "\<exists>c'. run_h h nxt c = Returned c'
     \<and> cd c' = Context_JSON L 401 (NewUnauthorizedResponse (UnauthorizedMessage config))
                            (Context_SetStatus 401 (cd c))
     \<and> trace (cd c') = trace (cd c) \<and> ctx_user (req (cd c')) = ctx_user (req (cd c))"
proof -
  obtain e where "parseJWT L token (JWTSecret config) = Inl e"
    using parseJWT_sig[OF assms(6)] by blast
  from auth_handler_JWT_reject[OF assms(1-4) this]
  show ?thesis
    by (simp add: trace_Context_JSON trace_Context_SetStatus req_Context_JSON
          req_Context_SetStatus)
qed

text \<open>The witness: a token with \<open>alg: HS256\<close> whose signature segment is not the MAC.\<close>

theorem C6_witness:
  "AuthMiddleware example_stdlib_jwt (Some example_auth_config)
      = Inr (auth_handler example_stdlib_jwt example_auth_config)
   \<and> AuthType example_auth_config = AuthTypeJWT
   \<and> URL_Path (req (cd (new_Context
          (example_request_bearer ''/api/profile'' ''alg:HS256.sub:alice.bad'') [] [])))
        \<notin> set (SkipPaths example_auth_config)
   \<and> Header (req (cd (new_Context
          (example_request_bearer ''/api/profile'' ''alg:HS256.sub:alice.bad'') [] [])))
         ''Authorization'' = Some (''Bearer '' @ ''alg:HS256.sub:alice.bad'')
   \<and> length (strings_Split CHR ''.'' ''alg:HS256.sub:alice.bad'') = 3
   \<and> base64URLDecode example_stdlib_jwt (strings_Split CHR ''.'' ''alg:HS256.sub:alice.bad'' ! 2)
        = Inr ''bad''
   \<and> createHmacSignature example_stdlib_jwt
        (strings_Split CHR ''.'' ''alg:HS256.sub:alice.bad'' ! 0 @ ''.'' @
         strings_Split CHR ''.'' ''alg:HS256.sub:alice.bad'' ! 1)
        (JWTSecret example_auth_config) = ''mac''
   \<and> (\<exists>c'. run_h (auth_handler example_stdlib_jwt example_auth_config) (\<lambda>c. Returned c)
               (new_Context (example_request_bearer ''/api/profile'' ''alg:HS256.sub:alice.bad'')
                  [] [])
             = Returned c'
          \<and> trace (cd c') = [] \<and> ctx_user (req (cd c')) = None)"
proof -
  let ?t = "''alg:HS256.sub:alice.bad''"
  let ?c = "new_Context (example_request_bearer ''/api/profile'' ?t) [] []"
  have a: "AuthMiddleware example_stdlib_jwt (Some example_auth_config)
      = Inr (auth_handler example_stdlib_jwt example_auth_config)"
    by (simp add: example_jwt_eval)
  have b: "AuthType example_auth_config = AuthTypeJWT" by (simp add: example_jwt_eval)
  have c: "URL_Path (req (cd ?c)) \<notin> set (SkipPaths example_auth_config)"
    by (simp add: example_jwt_eval)
  have d: "Header (req (cd ?c)) ''Authorization'' = Some (''Bearer '' @ ?t)"
    by (simp add: example_jwt_eval)
  have l: "length (strings_Split CHR ''.'' ?t) = 3" by simp
  have s1: "base64URLDecode example_stdlib_jwt (strings_Split CHR ''.'' ?t ! 2) = Inr ''bad''"
    by (simp add: example_jwt_eval)
  have s2: "createHmacSignature example_stdlib_jwt
        (strings_Split CHR ''.'' ?t ! 0 @ ''.'' @ strings_Split CHR ''.'' ?t ! 1)
        (JWTSecret example_auth_config) = ''mac''"
    by (simp add: example_jwt_eval)
  have e: "\<forall>sig. base64URLDecode example_stdlib_jwt (strings_Split CHR ''.'' ?t ! 2) = Inr sig \<longrightarrow>
             sig \<noteq> createHmacSignature example_stdlib_jwt
                      (strings_Split CHR ''.'' ?t ! 0 @ ''.'' @ strings_Split CHR ''.'' ?t ! 1)
                      (JWTSecret example_auth_config)"
    unfolding s1 s2 by simp
  have t: "trace (cd ?c) = []" "ctx_user (req (cd ?c)) = None"
    by (simp_all add: example_jwt_eval)
  show ?thesis
    using C6_bad_signature_rejected[OF a b c d l e, of "\<lambda>c. Returned c"] a b c d l s1 s2 t
    by auto
qed


section \<open>Properties of the error-handler middleware\<close>

lemma recovered_error_tag: "\<exists>m. recovered_error v = InternalServerHttpError m"
  by (cases v) (auto simp: NewInternalServerHttpError_def)

lemma recovered_error_As:
  "errors_As_HTTPError (recovered_error v) = Some (500, Error_msg (recovered_error v))"
  by (cases v) (auto simp: NewInternalServerHttpError_def)

lemma handleError_recovered:
  "handleError L (recovered_error v) config d
     = Context_JSON L 500 (ErrorResponse 500 (Error_msg (recovered_error v))) d"
  by (simp add: handleError_def recovered_error_As NewErrorResponse_def)

lemma gin_handleError_recovered:
  "gin_handleError (recovered_error v) config gc
     = gc\<lparr>gin_JSON := gin_JSON gc @ [(500, ErrorResponse 500 (Error_msg (recovered_error v)))]\<rparr>"
  by (simp add: gin_handleError_def recovered_error_As NewErrorResponse_def)

text \<open>
  C7. Whatever value \<open>v\<close> a downstream handler panics with (a string, an error, any other
  value), when the panic reaches the error-handler middleware through its \<open>Next()\<close>:
  the value is turned into an \<open>InternalServerHttpError\<close>; the middleware calls \<open>JSON\<close>
  once, with status 500 and the envelope of code 500 and that error's message, on the
  context as the panic left it; and the middleware returns normally, so the panic goes no
  further. This holds for the middleware of package \<open>std\<close> on its own context, for the
  branch for other contexts, and for the middleware of package \<open>gin\<close>, which also aborts
  the gin chain.
\<close>

theorem C7_panic_recovered:
  "(\<exists>m. recovered_error v = InternalServerHttpError m)
   \<and> (nxt (c\<lparr>cd := install_errorCaptureWriter (cd c)\<rparr>) = Panicking v c2 \<longrightarrow>
        run_h (ErrorHandlerMiddleware L cfg) nxt c
          = Returned (c2\<lparr>cd := Context_JSON L 500
                                  (ErrorResponse 500 (Error_msg (recovered_error v))) (cd c2)\<rparr>))
   \<and> (nxt c = Panicking v c2 \<longrightarrow>
        run_h (ErrorHandlerMiddleware_other_context L cfg) nxt c
          = Returned (c2\<lparr>cd := Context_JSON L 500
                                  (ErrorResponse 500 (Error_msg (recovered_error v))) (cd c2)\<rparr>))
   \<and> (gc_Next gc = Panicking v gc2 \<longrightarrow>
        gin_ErrorHandlerMiddleware cfg gc_Next gc
          = Returned (gc2\<lparr>gin_JSON := gin_JSON gc2 @
                               [(500, ErrorResponse 500 (Error_msg (recovered_error v)))],
                          gin_aborted := True\<rparr>))"
proof -
  have std: "run_h (ErrorHandlerMiddleware L cfg) nxt c
          = Returned (c2\<lparr>cd := Context_JSON L 500
                                  (ErrorResponse 500 (Error_msg (recovered_error v))) (cd c2)\<rparr>)"
    if "nxt (c\<lparr>cd := install_errorCaptureWriter (cd c)\<rparr>) = Panicking v c2"
    using that by (simp add: ErrorHandlerMiddleware_def Let_def handleError_recovered)
  have oth: "run_h (ErrorHandlerMiddleware_other_context L cfg) nxt c
          = Returned (c2\<lparr>cd := Context_JSON L 500
                                  (ErrorResponse 500 (Error_msg (recovered_error v))) (cd c2)\<rparr>)"
    if "nxt c = Panicking v c2"
    using that
    by (simp add: ErrorHandlerMiddleware_other_context_def Let_def handleError_recovered)
  have gin: "gin_ErrorHandlerMiddleware cfg gc_Next gc
          = Returned (gc2\<lparr>gin_JSON := gin_JSON gc2 @
                               [(500, ErrorResponse 500 (Error_msg (recovered_error v)))],
                          gin_aborted := True\<rparr>)"
    if "gc_Next gc = Panicking v gc2"
    using that
    by (simp add: gin_ErrorHandlerMiddleware_def Let_def gin_handleError_recovered gin_Abort_def)
  show ?thesis using recovered_error_tag std oth gin by blast
qed

text \<open>The witness: a route handler that panics with an integer, behind the middleware,
  and a gin chain that panics with a string.\<close>

theorem C7_witness:
  "(\<lambda>c. Panicking (POther ''42'') c)
       ((new_Context (example_request ''/x'') [] [])
          \<lparr>cd := install_errorCaptureWriter (cd (new_Context (example_request ''/x'') [] []))\<rparr>)
     = Panicking (POther ''42'')
         ((new_Context (example_request ''/x'') [] [])
            \<lparr>cd := install_errorCaptureWriter (cd (new_Context (example_request ''/x'') [] []))\<rparr>)
   \<and> client_status (run_h (ErrorHandlerMiddleware example_stdlib None)
         (\<lambda>c. Panicking (POther ''42'') c) (new_Context (example_request ''/x'') [] [])) = Some 500
   \<and> client_body (run_h (ErrorHandlerMiddleware example_stdlib None)
         (\<lambda>c. Panicking (POther ''42'') c) (new_Context (example_request ''/x'') [] []))
       = Some [''unknown error: 42'']
   \<and> (\<lambda>gc. Panicking (PString ''boom'') gc) example_gin_Context
        = Panicking (PString ''boom'') example_gin_Context
   \<and> gin_JSON_of (gin_ErrorHandlerMiddleware None (\<lambda>gc. Panicking (PString ''boom'') gc)
        example_gin_Context) = [(500, ErrorResponse 500 ''boom'')]"
proof -
  let ?c = "new_Context (example_request ''/x'') [] []"
  let ?c1 = "?c\<lparr>cd := install_errorCaptureWriter (cd ?c)\<rparr>"
  have a: "(\<lambda>c. Panicking (POther ''42'') c) ?c1 = Panicking (POther ''42'') ?c1" by simp
  have b: "(\<lambda>gc. Panicking (PString ''boom'') gc) example_gin_Context
        = Panicking (PString ''boom'') example_gin_Context" by simp
  have std: "run_h (ErrorHandlerMiddleware example_stdlib None) (\<lambda>c. Panicking (POther ''42'') c) ?c
      = Returned (?c1\<lparr>cd := Context_JSON example_stdlib 500
           (ErrorResponse 500 (Error_msg (recovered_error (POther ''42'')))) (cd ?c1)\<rparr>)"
    using C7_panic_recovered[of "POther ''42''" "\<lambda>c. Panicking (POther ''42'') c" ?c ?c1
             example_stdlib None "\<lambda>gc. Panicking (POther ''42'') gc" example_gin_Context
             example_gin_Context] a
    by blast
  have gin: "gin_ErrorHandlerMiddleware None (\<lambda>gc. Panicking (PString ''boom'') gc)
        example_gin_Context
      = Returned (example_gin_Context\<lparr>gin_JSON := gin_JSON example_gin_Context @
           [(500, ErrorResponse 500 (Error_msg (recovered_error (PString ''boom''))))],
           gin_aborted := True\<rparr>)"
    using C7_panic_recovered[of "PString ''boom''" "\<lambda>c. Panicking (PString ''boom'') c" ?c ?c
             example_stdlib None "\<lambda>gc. Panicking (PString ''boom'') gc" example_gin_Context
             example_gin_Context] b
    by blast
  have s1: "client_status (run_h (ErrorHandlerMiddleware example_stdlib None)
         (\<lambda>c. Panicking (POther ''42'') c) ?c) = Some 500"
    unfolding std
    by (simp add: client_status_def install_errorCaptureWriter_def new_Context_def
          Context_JSON_def Context_SetStatus_def Context_SetHeader_def Header_Set_def
          http_WriteHeader_def http_Write_def new_ResponseWriter_def Let_def
          errorCapture_err_def NewInternalServerHttpError_def example_stdlib_def)
  have s2: "client_body (run_h (ErrorHandlerMiddleware example_stdlib None)
         (\<lambda>c. Panicking (POther ''42'') c) ?c) = Some [''unknown error: 42'']"
    unfolding std
    by (simp add: client_body_def install_errorCaptureWriter_def new_Context_def
          Context_JSON_def Context_SetStatus_def Context_SetHeader_def Header_Set_def
          http_WriteHeader_def http_Write_def new_ResponseWriter_def Let_def
          errorCapture_err_def NewInternalServerHttpError_def example_stdlib_def)
  have g1: "gin_JSON_of (gin_ErrorHandlerMiddleware None (\<lambda>gc. Panicking (PString ''boom'') gc)
        example_gin_Context) = [(500, ErrorResponse 500 ''boom'')]"
    unfolding gin by (simp add: example_gin_Context_def NewInternalServerHttpError_def)
  show ?thesis using a b s1 s2 g1 by blast
qed

text \<open>
  C8, as stated, fails: the chain returns normally with the accumulated errors
  \<open>[plain error, NotFoundHttpError]\<close>. One of them is an HTTPError, yet the middleware
  answers with the default pair 500 / Internal Server Error, because it looks at the first
  error only.
\<close>

theorem C8_counterexample:
  "gin_JSON_of (gin_ErrorHandlerMiddleware None
       (\<lambda>gc. Returned (gc\<lparr>gin_Errors := [GenericError ''database down'',
                                          NotFoundHttpError ''no such user'']\<rparr>))
       example_gin_Context)
     = [(500, ErrorResponse 500 ''Internal Server Error'')]"
  by (simp add: gin_ErrorHandlerMiddleware_def gin_handleError_def gin_Abort_def
        DefaultErrorHandlerConfig_def NewErrorResponse_def example_gin_Context_def)

text \<open>
  C8 (amended). When the chain returns normally with a non-empty accumulated error list,
  the error handler of package \<open>gin\<close>, and the branch for other contexts, answer from the
  first error of the list alone: when it is an HTTPError (itself or through its
  \<open>Unwrap\<close> chain), with that error's status code and message in the envelope; when it is
  not, with the configured default status and message, whatever errors follow it. The gin
  handler then aborts the chain.
\<close>

theorem C8_first_error_decides:
  "(gc_Next gc = Returned gc1 \<and> gin_Errors gc1 = e # es \<longrightarrow>
      (errors_As_HTTPError e = Some (code, msg) \<longrightarrow>
         gin_ErrorHandlerMiddleware cfg gc_Next gc
           = Returned (gc1\<lparr>gin_JSON := gin_JSON gc1 @ [(code, ErrorResponse code msg)],
                           gin_aborted := True\<rparr>))
    \<and> (errors_As_HTTPError e = None \<longrightarrow>
         gin_ErrorHandlerMiddleware (Some config) gc_Next gc
           = Returned (gc1\<lparr>gin_JSON := gin_JSON gc1 @
                              [(DefaultStatusCode config,
                                ErrorResponse (DefaultStatusCode config)
                                  (DefaultErrorMessage config))],
                           gin_aborted := True\<rparr>)))
   \<and> (nxt c = Returned c1 \<and> errs (cd c1) = e # es \<longrightarrow>
      (errors_As_HTTPError e = Some (code, msg) \<longrightarrow>
         run_h (ErrorHandlerMiddleware_other_context L cfg) nxt c
           = Returned (c1\<lparr>cd := Context_JSON L code (ErrorResponse code msg) (cd c1)\<rparr>))
    \<and> (errors_As_HTTPError e = None \<longrightarrow>
         run_h (ErrorHandlerMiddleware_other_context L (Some config)) nxt c
           = Returned (c1\<lparr>cd := Context_JSON L (DefaultStatusCode config)
                                   (ErrorResponse (DefaultStatusCode config)
                                      (DefaultErrorMessage config)) (cd c1)\<rparr>)))"
  by (auto simp: gin_ErrorHandlerMiddleware_def ErrorHandlerMiddleware_other_context_def Let_def
        gin_handleError_def handleError_def gin_Abort_def NewErrorResponse_def Context_Errors_def)

theorem C8_witness:
  "(\<lambda>gc. Returned (gc\<lparr>gin_Errors := [Wrapped ''lookup: '' (NotFoundHttpError ''no such user''),
                                     GenericError ''later'']\<rparr>)) example_gin_Context
      = Returned (example_gin_Context
           \<lparr>gin_Errors := [Wrapped ''lookup: '' (NotFoundHttpError ''no such user''),
                           GenericError ''later'']\<rparr>)
   \<and> gin_Errors (example_gin_Context
           \<lparr>gin_Errors := [Wrapped ''lookup: '' (NotFoundHttpError ''no such user''),
                           GenericError ''later'']\<rparr>)
        = Wrapped ''lookup: '' (NotFoundHttpError ''no such user'') # [GenericError ''later'']
   \<and> errors_As_HTTPError (Wrapped ''lookup: '' (NotFoundHttpError ''no such user''))
        = Some (404, ''no such user'')
   \<and> gin_JSON_of (gin_ErrorHandlerMiddleware None
        (\<lambda>gc. Returned (gc\<lparr>gin_Errors := [Wrapped ''lookup: '' (NotFoundHttpError ''no such user''),
                                           GenericError ''later'']\<rparr>)) example_gin_Context)
       = [(404, ErrorResponse 404 ''no such user'')]"
proof -
  let ?es = "[Wrapped ''lookup: '' (NotFoundHttpError ''no such user''), GenericError ''later'']"
  let ?nx = "\<lambda>gc. Returned (gc\<lparr>gin_Errors := ?es\<rparr>)"
  let ?g1 = "example_gin_Context\<lparr>gin_Errors := ?es\<rparr>"
  have a: "?nx example_gin_Context = Returned ?g1" by simp
  have b: "gin_Errors ?g1 = Wrapped ''lookup: '' (NotFoundHttpError ''no such user'')
                             # [GenericError ''later'']" by simp
  have c: "errors_As_HTTPError (Wrapped ''lookup: '' (NotFoundHttpError ''no such user''))
        = Some (404, ''no such user'')" by simp
  have "gin_ErrorHandlerMiddleware None ?nx example_gin_Context
          = Returned (?g1\<lparr>gin_JSON := gin_JSON ?g1 @ [(404, ErrorResponse 404 ''no such user'')],
                         gin_aborted := True\<rparr>)"
    using C8_first_error_decides[of ?nx example_gin_Context ?g1
            "Wrapped ''lookup: '' (NotFoundHttpError ''no such user'')" "[GenericError ''later'']"
            404 "''no such user''" None DefaultErrorHandlerConfig
            "\<lambda>c. Returned c" "new_Context (example_request ''/x'') [] []"
            "new_Context (example_request ''/x'') [] []" example_stdlib] a b c
    by blast
  then have d: "gin_JSON_of (gin_ErrorHandlerMiddleware None ?nx example_gin_Context)
       = [(404, ErrorResponse 404 ''no such user'')]"
    by (simp add: example_gin_Context_def)
  show ?thesis using a b c d by blast
qed

section \<open>Properties of the duplicate-request middleware\<close>

text \<open>
  C9. For the handler that \<open>DuplicateRequestMiddleware\<close> builds from a generator and a
  storage, on any context and whatever \<open>Next()\<close> would do:
  when the generator fails, \<open>JSON(500, Failed to generate request ID)\<close> and return, the
  storage not called; when the check fails, \<open>JSON(500, Failed to check request ID)\<close> and
  return; when the id exists, \<open>JSON(409, _)\<close> with the configured message (\<open>Conflict\<close> when
  it is empty) and return, with no save; when the save fails, \<open>JSON(500, Failed to save
  request ID)\<close> and return; and when the id is absent and the save succeeds, the handler
  is \<open>Next()\<close> on the context whose trace ends in generate, check, save: the id is saved
  and only then the rest of the chain runs. In the four failure cases the outcome does
  not depend on \<open>Next()\<close>, which is not called.
\<close>

theorem C9_duplicate_request_protocol:
  assumes "DuplicateRequestMiddleware L (Some config) = Inr h"
    and "RequestIDGenerator config = Some generator"
    and "RequestIDStorage config = Some storage"
  shows
   "(generator (trace (cd c)) (req (cd c)) = Inl e \<longrightarrow>
       run_h h nxt c = Returned (c\<lparr>cd := Context_JSON L 500
          (ErrorResponse 500 ''Failed to generate request ID'')
          ((cd c)\<lparr>trace := trace (cd c) @ [Ev_GenerateRequestID]\<rparr>)\<rparr>))
    \<and> (generator (trace (cd c)) (req (cd c)) = Inr requestID \<longrightarrow>
        (CheckRequestID storage (trace (cd c) @ [Ev_GenerateRequestID]) requestID = Inl e \<longrightarrow>
           run_h h nxt c = Returned (c\<lparr>cd := Context_JSON L 500
              (ErrorResponse 500 ''Failed to check request ID'')
              ((cd c)\<lparr>trace := trace (cd c) @
                  [Ev_GenerateRequestID, Ev_CheckRequestID requestID]\<rparr>)\<rparr>))
      \<and> (CheckRequestID storage (trace (cd c) @ [Ev_GenerateRequestID]) requestID = Inr True \<longrightarrow>
           run_h h nxt c = Returned (c\<lparr>cd := Context_JSON L 409
              (ErrorResponse 409 (if ConflictMessage config = [] then ''Conflict''
                                  else ConflictMessage config))
              ((cd c)\<lparr>trace := trace (cd c) @
                  [Ev_GenerateRequestID, Ev_CheckRequestID requestID]\<rparr>)\<rparr>))
      \<and> (CheckRequestID storage (trace (cd c) @ [Ev_GenerateRequestID]) requestID = Inr False \<longrightarrow>
          (SaveRequestID storage
              (trace (cd c) @ [Ev_GenerateRequestID, Ev_CheckRequestID requestID]) requestID
             = Some e \<longrightarrow>
             run_h h nxt c = Returned (c\<lparr>cd := Context_JSON L 500
                (ErrorResponse 500 ''Failed to save request ID'')
                ((cd c)\<lparr>trace := trace (cd c) @
                    [Ev_GenerateRequestID, Ev_CheckRequestID requestID,
                     Ev_SaveRequestID requestID]\<rparr>)\<rparr>))
        \<and> (SaveRequestID storage
              (trace (cd c) @ [Ev_GenerateRequestID, Ev_CheckRequestID requestID]) requestID
             = None \<longrightarrow>
             run_h h nxt c = nxt (c\<lparr>cd := (cd c)\<lparr>trace := trace (cd c) @
                  [Ev_GenerateRequestID, Ev_CheckRequestID requestID,
                   Ev_SaveRequestID requestID]\<rparr>\<rparr>))))"
proof -
  have h: "h = duplicate_handler L generator storage (ConflictMessage config)"
    using assms by (simp add: DuplicateRequestMiddleware_def)
  show ?thesis unfolding h
    by (auto simp: duplicate_handler_def record_call_def
          NewInternalServerErrorResponse_def NewConflictResponse_def NewErrorResponse_def
          split: result.splits)
qed

lemmas example_duplicate_eval =
  example_duplicate_config_def example_storage_def example_generator_def example_request_def
  new_Context_def DuplicateRequestMiddleware_def client_status_def client_body_def
  Context_JSON_def Context_SetStatus_def Context_SetHeader_def Header_Set_def
  http_WriteHeader_def http_Write_def new_ResponseWriter_def Let_def example_stdlib_def

text \<open>The witness runs the five cases: a generator failure, a check failure, an id saved
  by an earlier request, a save failure, and a new id.\<close>

theorem C9_witness:
  "DuplicateRequestMiddleware example_stdlib (Some example_duplicate_config)
     = Inr (duplicate_handler example_stdlib example_generator example_storage
              ''Duplicate request detected'')
   \<and> RequestIDGenerator example_duplicate_config = Some example_generator
   \<and> RequestIDStorage example_duplicate_config = Some example_storage
   \<and> example_generator [] (example_request ''/genfail'') = Inl (GenericError ''no id'')
   \<and> client_status (run_h (duplicate_handler example_stdlib example_generator example_storage
                              ''Duplicate request detected'')
                       (\<lambda>c. OutOfFuel) (new_Context (example_request ''/genfail'') [] []))
        = Some 500
   \<and> example_generator [] (example_request ''/checkfail'') = Inr ''/checkfail''
   \<and> CheckRequestID example_storage ([] @ [Ev_GenerateRequestID]) ''/checkfail''
        = Inl (GenericError ''store down'')
   \<and> client_status (run_h (duplicate_handler example_stdlib example_generator example_storage
                              ''Duplicate request detected'')
                       (\<lambda>c. OutOfFuel) (new_Context (example_request ''/checkfail'') [] []))
        = Some 500
   \<and> example_generator [Ev_SaveRequestID ''/orders''] (example_request ''/orders'') = Inr ''/orders''
   \<and> CheckRequestID example_storage ([Ev_SaveRequestID ''/orders''] @ [Ev_GenerateRequestID])
        ''/orders'' = Inr True
   \<and> client_status (run_h (duplicate_handler example_stdlib example_generator example_storage
                              ''Duplicate request detected'')
                       (\<lambda>c. OutOfFuel)
                       (new_Context (example_request ''/orders'') [Ev_SaveRequestID ''/orders''] []))
        = Some 409
   \<and> client_body (run_h (duplicate_handler example_stdlib example_generator example_storage
                              ''Duplicate request detected'')
                       (\<lambda>c. OutOfFuel)
                       (new_Context (example_request ''/orders'') [Ev_SaveRequestID ''/orders''] []))
        = Some [''Duplicate request detected'']
   \<and> example_generator [] (example_request ''/savefail'') = Inr ''/savefail''
   \<and> CheckRequestID example_storage ([] @ [Ev_GenerateRequestID]) ''/savefail'' = Inr False
   \<and> SaveRequestID example_storage
        ([] @ [Ev_GenerateRequestID, Ev_CheckRequestID ''/savefail'']) ''/savefail''
        = Some (GenericError ''store full'')
   \<and> client_status (run_h (duplicate_handler example_stdlib example_generator example_storage
                              ''Duplicate request detected'')
                       (\<lambda>c. OutOfFuel) (new_Context (example_request ''/savefail'') [] []))
        = Some 500
   \<and> example_generator [] (example_request ''/orders'') = Inr ''/orders''
   \<and> CheckRequestID example_storage ([] @ [Ev_GenerateRequestID]) ''/orders'' = Inr False
   \<and> SaveRequestID example_storage
        ([] @ [Ev_GenerateRequestID, Ev_CheckRequestID ''/orders'']) ''/orders'' = None
   \<and> trace_of (run_h (duplicate_handler example_stdlib example_generator example_storage
                              ''Duplicate request detected'')
                  (\<lambda>c. Returned c) (new_Context (example_request ''/orders'') [] []))
        = [Ev_GenerateRequestID, Ev_CheckRequestID ''/orders'', Ev_SaveRequestID ''/orders'']"
proof -
  let ?h = "duplicate_handler example_stdlib example_generator example_storage
              ''Duplicate request detected''"
  let ?stop = "\<lambda>c::Context. (OutOfFuel :: Context result)"
  have m: "DuplicateRequestMiddleware example_stdlib (Some example_duplicate_config) = Inr ?h"
    by (simp add: example_duplicate_eval)
  have g: "RequestIDGenerator example_duplicate_config = Some example_generator"
    by (simp add: example_duplicate_eval)
  have s: "RequestIDStorage example_duplicate_config = Some example_storage"
    by (simp add: example_duplicate_eval)
  note T = C9_duplicate_request_protocol[OF m g s]
  have cm: "ConflictMessage example_duplicate_config = ''Duplicate request detected''"
    by (simp add: example_duplicate_eval)
  have g1: "example_generator [] (example_request ''/genfail'') = Inl (GenericError ''no id'')"
    by (simp add: example_duplicate_eval)
  have r1: "client_status (run_h ?h ?stop (new_Context (example_request ''/genfail'') [] []))
              = Some 500"
    using T[of "new_Context (example_request ''/genfail'') [] []" "GenericError ''no id''"
            ?stop "[]"] g1
    by (simp add: example_duplicate_eval)
  have g2: "example_generator [] (example_request ''/checkfail'') = Inr ''/checkfail''"
    by (simp add: example_duplicate_eval)
  have c2: "CheckRequestID example_storage ([] @ [Ev_GenerateRequestID]) ''/checkfail''
        = Inl (GenericError ''store down'')"
    by (simp add: example_duplicate_eval)
  have r2: "client_status (run_h ?h ?stop (new_Context (example_request ''/checkfail'') [] []))
              = Some 500"
    using T[of "new_Context (example_request ''/checkfail'') [] []" "GenericError ''store down''"
            ?stop "''/checkfail''"] g2 c2
    by (simp add: example_duplicate_eval)
  have g3: "example_generator [Ev_SaveRequestID ''/orders''] (example_request ''/orders'')
              = Inr ''/orders''"
    by (simp add: example_duplicate_eval)
  have c3: "CheckRequestID example_storage ([Ev_SaveRequestID ''/orders''] @ [Ev_GenerateRequestID])
        ''/orders'' = Inr True"
    by (simp add: example_duplicate_eval)
  have r3: "client_status (run_h ?h ?stop
               (new_Context (example_request ''/orders'') [Ev_SaveRequestID ''/orders''] []))
              = Some 409"
       "client_body (run_h ?h ?stop
               (new_Context (example_request ''/orders'') [Ev_SaveRequestID ''/orders''] []))
              = Some [''Duplicate request detected'']"
    using T[of "new_Context (example_request ''/orders'') [Ev_SaveRequestID ''/orders''] []"
            "GenericError ''unused''" ?stop "''/orders''"] g3 c3 cm
    by (simp_all add: example_duplicate_eval)
  have g4: "example_generator [] (example_request ''/savefail'') = Inr ''/savefail''"
    by (simp add: example_duplicate_eval)
  have c4: "CheckRequestID example_storage ([] @ [Ev_GenerateRequestID]) ''/savefail'' = Inr False"
    by (simp add: example_duplicate_eval)
  have s4: "SaveRequestID example_storage
        ([] @ [Ev_GenerateRequestID, Ev_CheckRequestID ''/savefail'']) ''/savefail''
        = Some (GenericError ''store full'')"
    by (simp add: example_duplicate_eval)
  have r4: "client_status (run_h ?h ?stop (new_Context (example_request ''/savefail'') [] []))
              = Some 500"
    using T[of "new_Context (example_request ''/savefail'') [] []" "GenericError ''store full''"
            ?stop "''/savefail''"] g4 c4 s4
    by (simp add: example_duplicate_eval)
  have g5: "example_generator [] (example_request ''/orders'') = Inr ''/orders''"
    by (simp add: example_duplicate_eval)
  have c5: "CheckRequestID example_storage ([] @ [Ev_GenerateRequestID]) ''/orders'' = Inr False"
    by (simp add: example_duplicate_eval)
  have s5: "SaveRequestID example_storage
        ([] @ [Ev_GenerateRequestID, Ev_CheckRequestID ''/orders'']) ''/orders'' = None"
    by (simp add: example_duplicate_eval)
  have r5: "trace_of (run_h ?h (\<lambda>c. Returned c) (new_Context (example_request ''/orders'') [] []))
        = [Ev_GenerateRequestID, Ev_CheckRequestID ''/orders'', Ev_SaveRequestID ''/orders'']"
    using T[of "new_Context (example_request ''/orders'') [] []" "GenericError ''unused''"
            "\<lambda>c. Returned c" "''/orders''"] g5 c5 s5
    by (simp add: example_duplicate_eval)
  show ?thesis
    using m g s g1 r1 g2 c2 r2 g3 c3 r3 g4 c4 s4 r4 g5 c5 s5 r5 by blast
qed

end
